theory Spec2Isabelle
  imports Main "HOL-Library.Sublist"
begin

section \<open>Python values, exceptions and the logger\<close>

text \<open>
  The exceptions that can escape the modelled code. \<open>AttributeError\<close> is the only class
  caught inside guide assembly; \<open>URLError\<close> (caught by the fetcher) is an outcome of
  \<open>url_response\<close> below. Everything else aborts the run.
\<close>

datatype error = AttributeError | TypeError | ValueError | OtherError

text \<open>A value handed to the string converter (its parameter is typed \<open>Any\<close>).\<close>

datatype py_value =
    PyNone
  | PyBool bool
  | PyInt int
  | PyStr string
  | PyBytes string
  | PyList "py_value list"

text \<open>\<open>str(x)\<close> and \<open>'{}'.format(x)\<close> for an optional string: \<open>None\<close> prints as the text None.\<close>

definition py_str :: "string option \<Rightarrow> string" where
  "py_str v = (case v of None \<Rightarrow> ''None'' | Some s \<Rightarrow> s)"

definition NEW_DATE_FORMAT_MINIMAL :: string where
  "NEW_DATE_FORMAT_MINIMAL = ''%Y%m%d''"

definition NEW_DATE_FORMAT :: string where
  "NEW_DATE_FORMAT = ''%Y%m%d%H%M%S %z''"

definition NEW_DATE_FORMAT_NO_TZ :: string where
  "NEW_DATE_FORMAT_NO_TZ = ''%Y%m%d%H%M%S''"

section \<open>CustomStringConverter\<close>

definition EXCLUDED_STRINGS :: "string list" where
  "EXCLUDED_STRINGS =
     [''a.k.a. Cartoon'', ''IMDbPro'', ''See full cast & crew'', ''See more'']"

text \<open>\<open>isinstance(value, str)\<close>.\<close>

fun isinstance_str :: "py_value \<Rightarrow> bool" where
  "isinstance_str (PyStr s) = True"
| "isinstance_str v = False"

text \<open>
  \<open>deserialize\<close>: a string on the exclusion list gives \<open>None\<close>, any other string is
  returned; for a value that is not a string the body falls off its end, which is
  \<open>None\<close> in Python.
\<close>

fun deserialize :: "py_value \<Rightarrow> string option" where
  "deserialize (PyStr s) = (if s \<in> set EXCLUDED_STRINGS then None else Some s)"
| "deserialize v = None"

section \<open>Data model\<close>

text \<open>
  Modelled from the spec: the classes \<open>taChannels.Element\<close>, \<open>media.Element\<close> and
  \<open>mediaInfo.Element\<close> of the package \<open>ToonamiAftermath\<close> are imported by the source
  but are not part of it. Their fields are the ones the source reads and writes, with
  the optionality the spec gives them: a channel descriptor has an optional schedule URL
  and an optional metadata-query base URL; a raw schedule entry carries a start
  timestamp, name or blockName, an episode number and an optional info record (full
  name, year); decoding defaults every absent declared field to \<open>None\<close>.
\<close>

record channel =
  ch_id :: string
  displayName :: string
  ch_lang :: string
  ch_icon :: string
  ch_url :: string
  scheduleUrl :: "string option"
  episodeQueryUrl :: "string option"
  offset :: string
  country :: string
  ch_group :: string

record info_element =
  fullname :: "string option"
  year :: "string option"

text \<open>A schedule entry as the feed gives it (the spec's RawScheduleEntry).\<close>

record raw_schedule_entry =
  raw_startDate :: "string option"
  raw_name :: "string option"
  raw_blockName :: "string option"
  raw_episodeNumber :: "string option"
  raw_info :: "info_element option"

text \<open>
  The object of class \<open>media.Element\<close> that \<open>get_media\<close> mutates: the raw fields plus
  the ones normalization assigns (\<open>stopDate\<close>, \<open>queryUrl\<close>, \<open>lang\<close>, \<open>channelUrl\<close>,
  \<open>channel\<close>).
\<close>

record media_element =
  startDate :: "string option"
  stopDate :: "string option"
  name :: "string option"
  blockName :: "string option"
  episodeNumber :: "string option"
  info :: "info_element option"
  queryUrl :: "string option"
  lang :: "string option"
  channelUrl :: "string option"
  channel :: "string option"

text \<open>
  Modelled from the spec: a freshly decoded \<open>media.Element\<close>. The feed has no field for
  the ones normalization assigns, so they start as \<open>None\<close>.
\<close>

definition from_raw :: "raw_schedule_entry \<Rightarrow> media_element" where
  "from_raw r =
     \<lparr> startDate = raw_startDate r, stopDate = None, name = raw_name r,
       blockName = raw_blockName r, episodeNumber = raw_episodeNumber r,
       info = raw_info r, queryUrl = None, lang = None, channelUrl = None,
       channel = None \<rparr>"

record episode_element =
  season :: "int option"
  epNum :: "int option"
  ep_name :: "string option"
  ep_summary :: "string option"

text \<open>
  \<open>mediaInfo.Element\<close>. \<open>genres\<close>, \<open>productionCo\<close> and \<open>creators\<close> are wrapper objects
  holding a list under the same name (the source reads \<open>genres.genres\<close>); the option is
  the wrapper, \<open>None\<close> when the response had no such field.
\<close>

record media_info_element =
  mi_queryUrl :: "string option"
  genres :: "string list option"
  productionCo :: "string list option"
  creators :: "string list option"
  releaseDate :: "string option"
  summary :: "string option"
  image :: "string option"
  contentRating :: "string option"
  rating :: "string option"
  mi_name :: "string option"
  episode :: "episode_element option"

text \<open>
  The XMLTV \<open>Programme\<close> of the guide. A text element (\<open>Title\<close>, \<open>Desc\<close>, \<open>SubTitle\<close>,
  \<open>Category\<close>, \<open>Language\<close>) is the pair of its single content item and its \<open>lang\<close>;
  \<open>Credits\<close> is the pair (producer, writer); \<open>EpisodeNum\<close> keeps the two numbers that
  the source prints as \<open>"{}.{}.0/1"\<close> together with its system; \<open>StarRating\<close> is
  (value, system); the rating object is (system, value). A field the constructor call
  does not pass is \<open>None\<close>.
\<close>

type_synonym text_element = "string option \<times> string option"

record programme =
  p_category :: "text_element list option"
  p_channel :: "string option"
  p_credits :: "(string list \<times> string list) option"
  p_date :: "string option"
  p_desc :: "text_element list option"
  p_episode_num :: "((int \<times> int) \<times> string) list option"
  p_icon :: "string option list option"
  p_language :: "text_element option"
  p_rating :: "(string option \<times> string option) list option"
  p_start :: "string option"
  p_star_rating :: "(string \<times> string) list option"
  p_stop :: "string option"
  p_sub_title :: "text_element list option"
  p_title :: "text_element list"

text \<open>
  A call of the logger: level, message template and the arguments formatted into it.
\<close>

datatype level = DEBUG | ERROR

datatype log_arg =
    LStr string
  | LTime int
  | LOpt "string option"
  | LMedia media_element
  | LInfo "media_info_element option"
  | LErr error
  | LURLError

type_synonym log_record = "level \<times> string \<times> log_arg list"

text \<open>
  The mutable attributes of the \<open>ToonamiAftermath\<close> object: the normalized programme
  stream, the episode cache, the programme list of \<open>TV_OBJECT\<close>, and two traces: the
  logger calls made and the URLs opened, in order.
\<close>

record state =
  MEDIA_GUIDE_OBJECT :: "media_element list"
  all_episodes :: "media_info_element list"
  TV_programme :: "programme list"
  LOGGER :: "log_record list"
  fetched :: "string list"

section \<open>The environment\<close>

text \<open>
  What \<open>urlopen(url).read()\<close> does: it raises \<open>URLError\<close>, raises something else, or
  returns the body.
\<close>

datatype url_response = URLError | Raised error | Body string

text \<open>
  Everything outside the source is a parameter. The network and the clock are read at a
  point of the run, given by the number of URLs opened before, so the same URL may
  answer differently later. \<open>json_loads\<close> is \<open>json.loads\<close> on a type \<open>'j\<close> of JSON
  values; \<open>parse_media_root\<close> and \<open>parse_media_info\<close> stand for \<open>dicttoxml\<close> followed by
  \<open>XML_PARSER.from_bytes\<close> for the two target classes; \<open>dateutil_parse_format\<close> is
  \<open>parser.parse(s, fuzzy=True).__format__(f)\<close>; a naive \<open>datetime\<close> is its number of
  seconds on the naive time line (counted from a midnight), and \<open>strftime\<close> prints it.
\<close>

record 'j env =
  urlopen_read :: "nat \<Rightarrow> string \<Rightarrow> url_response"
  json_loads :: "string \<Rightarrow> error + 'j"
  parse_media_root :: "'j list \<Rightarrow> error + raw_schedule_entry list"
  parse_media_info :: "'j list \<Rightarrow> error + media_info_element"
  dateutil_parse_format :: "string \<Rightarrow> string \<Rightarrow> error + string"
  strftime :: "int \<Rightarrow> string \<Rightarrow> string"
  quote :: "string \<Rightarrow> string"
  getScheduleUrl :: "channel \<Rightarrow> int \<Rightarrow> string"
  get_rating_object :: "string option \<Rightarrow> error + (string option \<times> string option)"
  now :: "nat \<Rightarrow> int"
  GUIDE_ITEMS_PER_CHANNEL :: int

definition log_call :: "level \<Rightarrow> string \<Rightarrow> log_arg list \<Rightarrow> state \<Rightarrow> state" where
  "log_call lvl msg args st = st\<lparr>LOGGER := LOGGER st @ [(lvl, msg, args)]\<rparr>"

section \<open>get_proper_date_time\<close>

text \<open>The argument of \<open>get_proper_date_time\<close>: \<open>None\<close>, a string or a \<open>datetime\<close>.\<close>

datatype date_arg = DateNone | DateStr string | DateTime int

fun date_log_arg :: "date_arg \<Rightarrow> log_arg" where
  "date_log_arg DateNone = LOpt None"
| "date_log_arg (DateStr s) = LStr s"
| "date_log_arg (DateTime t) = LTime t"

text \<open>
  The value \<open>get_proper_date_time\<close> returns (or the exception it raises): \<open>None\<close> for
  the empty string and for \<open>None\<close>, \<open>strftime\<close> for a \<open>datetime\<close>, the parser
  otherwise.
\<close>

definition proper_date_time :: "'j env \<Rightarrow> date_arg \<Rightarrow> string \<Rightarrow> error + string option" where
  "proper_date_time env date_time_string new_format =
     (case date_time_string of
        DateNone \<Rightarrow> Inr None
      | DateTime t \<Rightarrow> Inr (Some (strftime env t new_format))
      | DateStr s \<Rightarrow>
          if s = '''' then Inr None
          else (case dateutil_parse_format env s new_format of
                  Inl e \<Rightarrow> Inl e
                | Inr r \<Rightarrow> Inr (Some r)))"

text \<open>The method: the logger call, then the value.\<close>

definition get_proper_date_time ::
  "'j env \<Rightarrow> date_arg \<Rightarrow> string \<Rightarrow> state \<Rightarrow> error + (string option \<times> state)" where
  "get_proper_date_time env date_time_string new_format st =
     (let st1 = log_call DEBUG ''Converting the date_time_string {} to format {}.''
                  [date_log_arg date_time_string, LStr new_format] st
      in case proper_date_time env date_time_string new_format of
           Inl e \<Rightarrow> Inl e
         | Inr r \<Rightarrow> Inr (r, st1))"

text \<open>An optional string attribute passed as the argument.\<close>

definition date_of_opt :: "string option \<Rightarrow> date_arg" where
  "date_of_opt v = (case v of None \<Rightarrow> DateNone | Some s \<Rightarrow> DateStr s)"

section \<open>get_json_obj_from_url\<close>

definition get_json_obj_from_url ::
  "'j env \<Rightarrow> string \<Rightarrow> state \<Rightarrow> error + ('j list option \<times> state)" where
  "get_json_obj_from_url env json_url st =
     (let st1 = log_call DEBUG ''Attempting to download the json data from the URL {}.''
                  [LStr json_url] st;
          st2 = st1\<lparr>fetched := fetched st1 @ [json_url]\<rparr>
      in case urlopen_read env (length (fetched st1)) json_url of
           URLError \<Rightarrow>
             Inr (None, log_call ERROR
                    ''Error getting data from URL {} due to connection issue.''
                    [LStr json_url, LURLError] st2)
         | Raised e \<Rightarrow> Inl e
         | Body raw_data \<Rightarrow>
             if length raw_data = 0
             then Inr (None, log_call DEBUG ''Couldn't scrape data from the url: {}''
                               [LStr json_url] st2)
             else (case json_loads env raw_data of
                     Inl e \<Rightarrow> Inl e
                   | Inr j \<Rightarrow>
                       Inr (Some [j], log_call DEBUG
                              ''Successfully pulled data from the url {} so we will not reconstruct it into a python data object.''
                              [LStr json_url] st2)))"

section \<open>get_media_info\<close>

definition get_media_info :: "'j env \<Rightarrow> string \<Rightarrow> state \<Rightarrow> error + state" where
  "get_media_info env media_info_url st =
     (let st1 = log_call DEBUG
                  ''Checking if the mediaInfo for {} is present in our current list before grabbing it.''
                  [LStr media_info_url] st;
          found = list_ex (\<lambda>element. mi_queryUrl element = Some media_info_url)
                    (all_episodes st1)
      in if \<not> found then
           (let st2 = log_call DEBUG
                        ''mediaInfo data for {} wasn't found in list so we will scrape it.''
                        [LStr media_info_url] st1
            in case get_json_obj_from_url env media_info_url st2 of
                 Inl e \<Rightarrow> Inl e
               | Inr (None, st3) \<Rightarrow> Inr st3
               | Inr (Some json_object, st3) \<Rightarrow>
                   (let st4 = log_call DEBUG
                                ''Transforming json object from {} into XML and then again into a mediaInfo XML object.''
                                [LStr media_info_url] st3
                    in case parse_media_info env json_object of
                         Inl e \<Rightarrow> Inl e
                       | Inr media_info_element \<Rightarrow>
                           Inr (st4\<lparr>all_episodes := all_episodes st4 @
                                  [media_info_element\<lparr>mi_queryUrl := Some media_info_url\<rparr>]\<rparr>)))
         else Inr st1)"

section \<open>get_media\<close>

text \<open>
  One iteration of the loop over \<open>media_objects.element\<close>, in the steps of its body.
  \<open>elements\<close> is the decoded list and \<open>position\<close> the loop counter.

  Lines 175-176: the stop time. The element at \<open>position + 1\<close> has not been touched
  when it is read, so its \<open>startDate\<close> is still the raw one.
\<close>

definition stop_time ::
  "'j env \<Rightarrow> channel \<Rightarrow> media_element list \<Rightarrow> nat \<Rightarrow> media_element \<Rightarrow> state
     \<Rightarrow> error + (media_element \<times> state)" where
  "stop_time env channel_object elements position media_element st =
     (if int position < int (length elements) - 1
      then (case get_proper_date_time env
                   (DateStr (py_str (startDate (elements ! (position + 1)))
                             @ offset channel_object))
                   NEW_DATE_FORMAT st of
              Inl e \<Rightarrow> Inl e
            | Inr (d, st1) \<Rightarrow> Inr (media_element\<lparr>stopDate := d\<rparr>, st1))
      else Inr (media_element, st))"

text \<open>Lines 178-179: \<open>blockName\<close> stands in for a missing \<open>name\<close>.\<close>

definition block_name_fallback :: "media_element \<Rightarrow> media_element" where
  "block_name_fallback media_element =
     (if name media_element = None \<and> blockName media_element \<noteq> None
      then media_element\<lparr>name := blockName media_element\<rparr> else media_element)"

text \<open>
  Lines 182-190: the query URL of an element whose name is \<open>nm\<close>. Adding a string to
  an absent \<open>episodeQueryUrl\<close> is a \<open>TypeError\<close>.
\<close>

definition full_query_url ::
  "'j env \<Rightarrow> channel \<Rightarrow> media_element \<Rightarrow> string \<Rightarrow> error + string" where
  "full_query_url env channel_object media_element nm =
     (let episode_urlized =
            (case info media_element of
               None \<Rightarrow> quote env nm
             | Some i \<Rightarrow> (case fullname i of
                            None \<Rightarrow> quote env nm
                          | Some f \<Rightarrow> quote env f))
      in case episodeQueryUrl channel_object of
           None \<Rightarrow> Inl TypeError
         | Some base \<Rightarrow>
             (let u1 = base @ ''?name='' @ episode_urlized;
                  u2 = (case info media_element of
                          None \<Rightarrow> u1
                        | Some i \<Rightarrow> (case year i of
                                       None \<Rightarrow> u1
                                     | Some y \<Rightarrow> u1 @ ''&year='' @ y))
              in Inr (case episodeNumber media_element of
                        None \<Rightarrow> u2
                      | Some n \<Rightarrow> u2 @ ''&episode='' @ n)))"

text \<open>Lines 181-196: what is done for an element that has a name.\<close>

definition named_element ::
  "'j env \<Rightarrow> channel \<Rightarrow> media_element \<Rightarrow> string \<Rightarrow> state
     \<Rightarrow> error + (media_element \<times> state)" where
  "named_element env channel_object media_element nm st =
     (case full_query_url env channel_object media_element nm of
        Inl e \<Rightarrow> Inl e
      | Inr url \<Rightarrow>
          (let m3 = media_element\<lparr>queryUrl := Some url,
                                   lang := Some (ch_lang channel_object),
                                   channelUrl := Some (ch_url channel_object)\<rparr>
           in case get_proper_date_time env
                     (DateStr (py_str (startDate m3) @ offset channel_object))
                     NEW_DATE_FORMAT st of
                Inl e \<Rightarrow> Inl e
              | Inr (d, st2) \<Rightarrow>
                  (let m4 = m3\<lparr>startDate := d, channel := Some (ch_id channel_object)\<rparr>
                   in case get_media_info env url st2 of
                        Inl e \<Rightarrow> Inl e
                      | Inr st3 \<Rightarrow> Inr (m4, st3))))"

text \<open>The whole body; line 197 appends the element whether it has a name or not.\<close>

definition media_loop_body ::
  "'j env \<Rightarrow> channel \<Rightarrow> media_element list \<Rightarrow> nat \<Rightarrow> media_element \<Rightarrow> state
     \<Rightarrow> error + state" where
  "media_loop_body env channel_object elements position media_element st =
     (case stop_time env channel_object elements position media_element st of
        Inl e \<Rightarrow> Inl e
      | Inr (m1, st1) \<Rightarrow>
          (let m2 = block_name_fallback m1
           in case name m2 of
                None \<Rightarrow> Inr (st1\<lparr>MEDIA_GUIDE_OBJECT := MEDIA_GUIDE_OBJECT st1 @ [m2]\<rparr>)
              | Some nm \<Rightarrow>
                  (case named_element env channel_object m2 nm st1 of
                     Inl e \<Rightarrow> Inl e
                   | Inr (m4, st3) \<Rightarrow>
                       Inr (st3\<lparr>MEDIA_GUIDE_OBJECT := MEDIA_GUIDE_OBJECT st3 @ [m4]\<rparr>))))"

text \<open>
  What one iteration at \<open>position\<close> makes of the element \<open>m\<close>: the relation between
  the element read and the element appended, used to state what the loop does.
\<close>

definition normalized_at ::
  "'j env \<Rightarrow> channel \<Rightarrow> media_element list \<Rightarrow> nat \<Rightarrow> media_element \<Rightarrow> media_element
     \<Rightarrow> bool" where
  "normalized_at env ch els pos m m' =
     (blockName m' = blockName m \<and> episodeNumber m' = episodeNumber m \<and> info m' = info m \<and>
      name m' = (case name m of None \<Rightarrow> blockName m | Some n \<Rightarrow> Some n) \<and>
      (if int pos < int (length els) - 1
       then proper_date_time env
              (DateStr (py_str (startDate (els ! (pos + 1))) @ offset ch)) NEW_DATE_FORMAT
            = Inr (stopDate m')
       else stopDate m' = stopDate m) \<and>
      (if name m' = None
       then queryUrl m' = queryUrl m \<and> startDate m' = startDate m \<and> channel m' = channel m
       else proper_date_time env
              (DateStr (py_str (startDate m) @ offset ch)) NEW_DATE_FORMAT
            = Inr (startDate m') \<and>
            channel m' = Some (ch_id ch) \<and> lang m' = Some (ch_lang ch) \<and>
            channelUrl m' = Some (ch_url ch) \<and> queryUrl m' \<noteq> None))"

text \<open>The loop: \<open>rest\<close> are the elements still to visit, \<open>position\<close> the counter.\<close>

fun media_loop ::
  "'j env \<Rightarrow> channel \<Rightarrow> media_element list \<Rightarrow> nat \<Rightarrow> media_element list \<Rightarrow> state
     \<Rightarrow> error + state" where
  "media_loop env channel_object elements position [] st = Inr st"
| "media_loop env channel_object elements position (media_element # rest) st =
     (case media_loop_body env channel_object elements position media_element st of
        Inl e \<Rightarrow> Inl e
      | Inr st1 \<Rightarrow> media_loop env channel_object elements (position + 1) rest st1)"

text \<open>
  \<open>rrule.rrule(rrule.HOURLY, dtstart=..., until=...)\<close> of the library \<open>dateutil\<close>: the
  occurrences \<open>dtstart\<close>, \<open>dtstart\<close> + 1 h, ... up to and including \<open>until\<close> (the last
  occurrence is the greatest one that is not after \<open>until\<close>).
\<close>

definition rrule_hourly :: "int \<Rightarrow> int \<Rightarrow> int list" where
  "rrule_hourly dtstart until =
     map (\<lambda>k. dtstart + 3600 * int k) [0 ..< nat ((until - dtstart) div 3600 + 1)]"

text \<open>The placeholder built for one block.\<close>

definition mock_programme :: "channel \<Rightarrow> string option \<Rightarrow> string option \<Rightarrow> programme" where
  "mock_programme channel_object block_start_time block_end_time =
     \<lparr> p_category = None, p_channel = Some (ch_id channel_object), p_credits = None,
       p_date = None, p_desc = None, p_episode_num = None,
       p_icon = Some [Some (ch_icon channel_object)], p_language = None,
       p_rating = None, p_start = block_start_time, p_star_rating = None,
       p_stop = block_end_time, p_sub_title = None,
       p_title = [(Some (displayName channel_object), Some (ch_lang channel_object))] \<rparr>"

fun mock_loop :: "'j env \<Rightarrow> channel \<Rightarrow> int list \<Rightarrow> state \<Rightarrow> error + state" where
  "mock_loop env channel_object [] st = Inr st"
| "mock_loop env channel_object (block # blocks) st =
     (case get_proper_date_time env (DateTime block) NEW_DATE_FORMAT_NO_TZ st of
        Inl e \<Rightarrow> Inl e
      | Inr (block_start_time, st1) \<Rightarrow>
          (case get_proper_date_time env (DateTime (block + 3600)) NEW_DATE_FORMAT_NO_TZ st1 of
             Inl e \<Rightarrow> Inl e
           | Inr (block_end_time, st2) \<Rightarrow>
               (let st3 = log_call DEBUG ''Making 1 hour block from {} until {}.''
                            [LOpt block_start_time, LOpt block_end_time] st2
                in mock_loop env channel_object blocks
                     (st3\<lparr>TV_programme := TV_programme st3 @
                            [mock_programme channel_object block_start_time block_end_time]\<rparr>))))"

definition get_media :: "'j env \<Rightarrow> channel \<Rightarrow> state \<Rightarrow> error + state" where
  "get_media env channel_object st =
     (case scheduleUrl channel_object of
        Some u \<Rightarrow>
          (let prepared_url = getScheduleUrl env channel_object (GUIDE_ITEMS_PER_CHANNEL env)
           in case get_json_obj_from_url env prepared_url st of
                Inl e \<Rightarrow> Inl e
              | Inr (None, st1) \<Rightarrow>
                  Inr (log_call ERROR ''The URL {} has no media info.'' [LStr prepared_url] st1)
              | Inr (Some json_object, st1) \<Rightarrow>
                  (let st2 = log_call DEBUG
                               ''Transforming json object from {} into XML and then again into a media XML object.''
                               [LStr prepared_url] st1
                   in case parse_media_root env json_object of
                        Inl e \<Rightarrow> Inl e
                      | Inr raws \<Rightarrow>
                          (let elements = map from_raw raws;
                               st3 = log_call DEBUG
                                       ''Looping through the media object elements to add additional data and scrape the media info.''
                                       [] st2
                           in media_loop env channel_object elements 0 elements st3)))
      | None \<Rightarrow>
          (let t = now env (length (fetched st));
               start_time = t - t mod 3600;
               end_time = start_time + 86400;
               st1 = log_call DEBUG
                       ''The channel {} doesn't have a TV guide - Making a 24 hour Mock guide from {} until {}.''
                       [LStr (displayName channel_object), LTime start_time, LTime end_time] st
           in mock_loop env channel_object (rrule_hourly start_time end_time) st1))"

section \<open>adapt_media_objects_to_xmltv_object\<close>

text \<open>
  The body of the \<open>try\<close> for one media object, up to the \<open>Programme\<close> it builds, in
  three steps. An exception comes with the state it was raised in, since the logger
  calls made before it stay made.

  Lines 283-295: the fields that do not need metadata.
\<close>

definition plain_programme :: "media_element \<Rightarrow> programme" where
  "plain_programme media_object =
     (let title0 = [(name media_object, lang media_object)];
          title = (case info media_object of
                     None \<Rightarrow> title0
                   | Some i \<Rightarrow> (case fullname i of
                                  None \<Rightarrow> title0
                                | Some f \<Rightarrow> [(Some f, lang media_object)]))
      in \<lparr> p_category = None, p_channel = channel media_object, p_credits = None,
           p_date = None, p_desc = None, p_episode_num = None, p_icon = None,
           p_language = Some (lang media_object, lang media_object),
           p_rating = None, p_start = startDate media_object,
           p_star_rating = None, p_stop = stopDate media_object,
           p_sub_title = None, p_title = title \<rparr>)"

text \<open>
  Lines 297-304: the fields read from the metadata. Reading \<open>genres.genres\<close> (and
  likewise \<open>productionCo\<close>, \<open>creators\<close>) of an absent wrapper is an \<open>AttributeError\<close>.
\<close>

definition with_media_info ::
  "'j env \<Rightarrow> media_element \<Rightarrow> media_info_element \<Rightarrow> state
     \<Rightarrow> (error \<times> state) + (programme \<times> state)" where
  "with_media_info env media_object mi st =
     (case genres mi of
        None \<Rightarrow> Inl (AttributeError, st)
      | Some gs \<Rightarrow>
     (case productionCo mi of
        None \<Rightarrow> Inl (AttributeError, st)
      | Some producer \<Rightarrow>
     (case creators mi of
        None \<Rightarrow> Inl (AttributeError, st)
      | Some writer \<Rightarrow>
     (case get_proper_date_time env (date_of_opt (releaseDate mi))
             NEW_DATE_FORMAT_MINIMAL st of
        Inl e \<Rightarrow>
          Inl (e, log_call DEBUG ''Converting the date_time_string {} to format {}.''
                    [date_log_arg (date_of_opt (releaseDate mi)),
                     LStr NEW_DATE_FORMAT_MINIMAL] st)
      | Inr (d, st1) \<Rightarrow>
     (case get_rating_object env (contentRating mi) of
        Inl e \<Rightarrow> Inl (e, st1)
      | Inr r \<Rightarrow>
          Inr ((plain_programme media_object)
                 \<lparr> p_category := Some (map (\<lambda>genre. (Some genre, lang media_object)) gs),
                   p_credits := Some (producer, writer),
                   p_date := d,
                   p_desc := Some [(summary mi, lang media_object)],
                   p_icon := Some [image mi],
                   p_rating := Some [r],
                   p_star_rating := Some [(py_str (rating mi) @ ''/10'', ''imdb'')],
                   p_sub_title := Some [(mi_name mi, lang media_object)] \<rparr>,
               st1))))))"

text \<open>
  Lines 305-308: the fields read from the episode sub-record. Subtracting 1 from an
  absent \<open>season\<close> or \<open>epNum\<close> is a \<open>TypeError\<close>.
\<close>

definition with_episode ::
  "media_element \<Rightarrow> episode_element \<Rightarrow> programme \<Rightarrow> error + programme" where
  "with_episode media_object ep p =
     (case season ep of
        None \<Rightarrow> Inl TypeError
      | Some s \<Rightarrow>
          (case epNum ep of
             None \<Rightarrow> Inl TypeError
           | Some n \<Rightarrow>
               Inr (p\<lparr> p_desc := Some [(ep_summary ep, lang media_object)],
                       p_episode_num := Some [((s - 1, n - 1), ''xmltv_ns'')],
                       p_sub_title := Some [(ep_name ep, lang media_object)] \<rparr>)))"

definition derive_programme ::
  "'j env \<Rightarrow> media_element \<Rightarrow> media_info_element option \<Rightarrow> state
     \<Rightarrow> (error \<times> state) + (programme \<times> state)" where
  "derive_programme env media_object media_info_object st =
     (case media_info_object of
        None \<Rightarrow> Inr (plain_programme media_object, st)
      | Some mi \<Rightarrow>
          (case with_media_info env media_object mi st of
             Inl x \<Rightarrow> Inl x
           | Inr (p, st1) \<Rightarrow>
               (case episode mi of
                  None \<Rightarrow> Inr (p, st1)
                | Some ep \<Rightarrow>
                    (case with_episode media_object ep p of
                       Inl e \<Rightarrow> Inl (e, st1)
                     | Inr p' \<Rightarrow> Inr (p', st1)))))"

text \<open>
  The loop over \<open>MEDIA_GUIDE_OBJECT.element\<close>: the first cache element with the same
  \<open>queryUrl\<close> is the metadata; \<open>except AttributeError\<close> logs and goes on, any other
  exception leaves the loop.
\<close>

fun adapt_loop :: "'j env \<Rightarrow> media_element list \<Rightarrow> state \<Rightarrow> error + state" where
  "adapt_loop env [] st = Inr st"
| "adapt_loop env (media_object # rest) st =
     (let media_info_object =
            find (\<lambda>element. mi_queryUrl element = queryUrl media_object) (all_episodes st);
          st1 = (case media_info_object of
                   None \<Rightarrow> st
                 | Some element \<Rightarrow>
                     log_call DEBUG
                       ''Found the corresponding mediaInfo object for the media_object with a url of {}.''
                       [LOpt (queryUrl media_object)] st)
      in case derive_programme env media_object media_info_object st1 of
           Inr (p, st2) \<Rightarrow>
             adapt_loop env rest (st2\<lparr>TV_programme := TV_programme st2 @ [p]\<rparr>)
         | Inl (e, st2) \<Rightarrow>
             if e = AttributeError
             then adapt_loop env rest
                    (log_call ERROR
                       (''Unable to add element: '' @ [CHR 0x0A, CHR 0x09] @ '' --Element: {} ''
                          @ [CHR 0x0A, CHR 0x09] @ '' --Info Element: {} ''
                          @ [CHR 0x0A, CHR 0x09] @ '' --Reason: {}.'')
                       [LMedia media_object, LInfo media_info_object, LErr e] st2)
             else Inl e)"

definition adapt_media_objects_to_xmltv_object :: "'j env \<Rightarrow> state \<Rightarrow> error + state" where
  "adapt_media_objects_to_xmltv_object env st =
     adapt_loop env (MEDIA_GUIDE_OBJECT st)
       (log_call DEBUG ''Going to adapt media objects into xmltv objects.'' [] st)"

text \<open>
  The outcome of the \<open>try\<close> body for one media object against a cache: the programme
  it builds or the exception it raises. The body touches nothing of the state but the
  logger trace and its outcome does not depend on the state it runs in (lemma
  \<open>derive_programme_outcome\<close>), so the outcome is read off a state that holds the cache
  and nothing else.
\<close>

definition programme_outcome ::
  "'j env \<Rightarrow> media_info_element list \<Rightarrow> media_element \<Rightarrow> error + programme" where
  "programme_outcome env cache media_object =
     map_sum fst fst
       (derive_programme env media_object
          (find (\<lambda>element. mi_queryUrl element = queryUrl media_object) cache)
          \<lparr> MEDIA_GUIDE_OBJECT = [], all_episodes = cache, TV_programme = [], LOGGER = [],
            fetched = [] \<rparr>)"

section \<open>main\<close>

text \<open>\<open>for channel in self.CHANNELS.element: self.get_media(channel_object=channel)\<close>\<close>

fun channels_loop :: "'j env \<Rightarrow> channel list \<Rightarrow> state \<Rightarrow> error + state" where
  "channels_loop env [] st = Inr st"
| "channels_loop env (channel_object # rest) st =
     (case get_media env channel_object st of
        Inl e \<Rightarrow> Inl e
      | Inr st1 \<Rightarrow> channels_loop env rest st1)"

text \<open>
  The pipeline of \<open>main\<close> between reading the catalog and the cache and writing the
  files: \<open>CHANNELS\<close> is the catalog, \<open>st\<close> holds the cache as loaded. The channel
  list of \<open>TV_OBJECT\<close> (\<open>get_channels\<close>), the playlist and the files written at the end
  are not part of the model.
\<close>

definition main :: "'j env \<Rightarrow> channel list \<Rightarrow> state \<Rightarrow> error + state" where
  "main env CHANNELS st =
     (case channels_loop env CHANNELS st of
        Inl e \<Rightarrow> Inl e
      | Inr st1 \<Rightarrow> adapt_media_objects_to_xmltv_object env st1)"

text \<open>
  What the call of \<open>get_media\<close> for one channel contributes: \<open>g\<close> to the programme stream
  and \<open>ps\<close> to the programme list. Without a schedule URL it is hourly placeholders
  only; with one it is nothing (the fetch gave no data) or one element per entry of a
  decoded schedule, element \<open>j\<close> made from entry \<open>j\<close>. Used to state what the loop over
  the catalog does.
\<close>

definition channel_segment ::
  "'j env \<Rightarrow> channel \<Rightarrow> media_element list \<Rightarrow> programme list \<Rightarrow> bool" where
  "channel_segment env ch g ps =
     (case scheduleUrl ch of
        None \<Rightarrow>
          g = [] \<and>
          (\<exists>t n. ps = map (\<lambda>k. mock_programme ch
                              (Some (strftime env (t + 3600 * int k) NEW_DATE_FORMAT_NO_TZ))
                              (Some (strftime env (t + 3600 * int (k + 1))
                                       NEW_DATE_FORMAT_NO_TZ)))
                        [0 ..< n])
      | Some u \<Rightarrow>
          ps = [] \<and>
          (g = [] \<or>
           (\<exists>js raws. parse_media_root env js = Inr raws \<and> length g = length raws \<and>
              (\<forall>j<length raws.
                 blockName (g ! j) = raw_blockName (raws ! j) \<and>
                 episodeNumber (g ! j) = raw_episodeNumber (raws ! j) \<and>
                 info (g ! j) = raw_info (raws ! j) \<and>
                 name (g ! j) =
                   (case raw_name (raws ! j) of
                      None \<Rightarrow> raw_blockName (raws ! j) | Some n \<Rightarrow> Some n) \<and>
                 (name (g ! j) \<noteq> None \<longrightarrow> channel (g ! j) = Some (ch_id ch))))))"

section \<open>A sample run\<close>

text \<open>
  Concrete inputs on which the model is evaluated below. The catalog has a channel with
  a schedule (\<open>sample_channel\<close>), one without (\<open>mock_channel\<close>) and one whose metadata
  source fails on its first request (\<open>flaky_channel\<close>). The schedule of the first is the
  scenario of the spec (two shows at 12:00 and 13:00, offset -0500) followed by an entry
  with neither \<open>name\<close> nor \<open>blockName\<close>; the second show is named by its block only and
  its metadata has no genres.
\<close>

definition empty_state :: state where
  "empty_state =
     \<lparr> MEDIA_GUIDE_OBJECT = [], all_episodes = [], TV_programme = [], LOGGER = [],
       fetched = [] \<rparr>"

definition sample_entry ::
  "string option \<Rightarrow> string option \<Rightarrow> string option \<Rightarrow> raw_schedule_entry" where
  "sample_entry start nm block =
     \<lparr> raw_startDate = start, raw_name = nm, raw_blockName = block,
       raw_episodeNumber = None, raw_info = None \<rparr>"

definition sample_schedule :: "raw_schedule_entry list" where
  "sample_schedule =
     [sample_entry (Some ''20240101120000'') (Some ''Show A'') None,
      sample_entry (Some ''20240101130000'') None (Some ''Block B''),
      sample_entry (Some ''20240101140000'') None None]"

definition repeat_schedule :: "raw_schedule_entry list" where
  "repeat_schedule =
     [sample_entry (Some ''20240101120000'') (Some ''Show A'') None,
      sample_entry (Some ''20240101130000'') (Some ''Show A'') None]"

definition sample_info :: "string list option \<Rightarrow> media_info_element" where
  "sample_info gs =
     \<lparr> mi_queryUrl = None, genres = gs, productionCo = Some [''Studio''],
       creators = Some [''Writer''], releaseDate = Some '''', summary = Some ''Summary'',
       image = None, contentRating = Some ''TV-PG'', rating = Some ''8.8'',
       mi_name = Some ''Show A'', episode = None \<rparr>"

definition sample_env :: "string env" where
  "sample_env =
     \<lparr> urlopen_read = (\<lambda>k url.
         if url = ''sched'' then Body ''S''
         else if url = ''sched2'' then Body ''R''
         else if url = ''q?name=Show%20A'' then Body ''A''
         else if url = ''q?name=Block%20B'' then Body ''B''
         else if url = ''flaky?name=Show%20A'' then (if k = 1 then URLError else Body ''A'')
         else if url = ''down'' then URLError
         else Body ''''),
       json_loads = (\<lambda>body. Inr body),
       parse_media_root = (\<lambda>js.
         if js = [''S''] then Inr sample_schedule
         else if js = [''R''] then Inr repeat_schedule
         else Inl ValueError),
       parse_media_info = (\<lambda>js.
         if js = [''A''] then Inr (sample_info (Some [''Action'']))
         else if js = [''B''] then Inr (sample_info None)
         else Inl ValueError),
       dateutil_parse_format = (\<lambda>s f.
         if s = ''20240101120000-0500'' then Inr ''20240101120000 -0500''
         else if s = ''20240101130000-0500'' then Inr ''20240101130000 -0500''
         else if s = ''20240101140000-0500'' then Inr ''20240101140000 -0500''
         else Inl ValueError),
       strftime = (\<lambda>t f. replicate (nat (t div 3600)) (CHR ''h'')),
       quote = (\<lambda>s.
         if s = ''Show A'' then ''Show%20A''
         else if s = ''Block B'' then ''Block%20B''
         else s),
       getScheduleUrl = (\<lambda>ch n. case scheduleUrl ch of None \<Rightarrow> '''' | Some u \<Rightarrow> u),
       get_rating_object = (\<lambda>r. Inr (Some ''MPAA'', r)),
       now = (\<lambda>k. 7325),
       GUIDE_ITEMS_PER_CHANNEL = 200 \<rparr>"

definition sample_channel :: channel where
  "sample_channel =
     \<lparr> ch_id = ''ch1'', displayName = ''Channel 1'', ch_lang = ''en'', ch_icon = ''icon1'',
       ch_url = ''url1'', scheduleUrl = Some ''sched'', episodeQueryUrl = Some ''q'',
       offset = ''-0500'', country = ''US'', ch_group = ''TA'' \<rparr>"

definition mock_channel :: channel where
  "mock_channel =
     \<lparr> ch_id = ''ch2'', displayName = ''Channel 2'', ch_lang = ''en'', ch_icon = ''icon2'',
       ch_url = ''url2'', scheduleUrl = None, episodeQueryUrl = None,
       offset = ''-0500'', country = ''US'', ch_group = ''TA'' \<rparr>"

definition flaky_channel :: channel where
  "flaky_channel =
     \<lparr> ch_id = ''ch3'', displayName = ''Channel 3'', ch_lang = ''en'', ch_icon = ''icon3'',
       ch_url = ''url3'', scheduleUrl = Some ''sched2'', episodeQueryUrl = Some ''flaky'',
       offset = ''-0500'', country = ''US'', ch_group = ''TA'' \<rparr>"

text \<open>A state whose cache already holds the metadata of the first show.\<close>

definition cached_state :: state where
  "cached_state =
     empty_state\<lparr>all_episodes :=
       [(sample_info (Some [''Action'']))\<lparr>mi_queryUrl := Some ''q?name=Show%20A''\<rparr>]\<rparr>"

text \<open>
  A state whose cache holds, for the second show, metadata without genres; the
  normalized element of that show; and the element of the entry without a title.
\<close>

definition no_genres_state :: state where
  "no_genres_state =
     empty_state\<lparr>all_episodes :=
       [(sample_info None)\<lparr>mi_queryUrl := Some ''q?name=Block%20B''\<rparr>]\<rparr>"

definition block_element :: media_element where
  "block_element =
     (from_raw (sample_entry (Some ''20240101130000'') None (Some ''Block B'')))
       \<lparr>name := Some ''Block B'', queryUrl := Some ''q?name=Block%20B''\<rparr>"

definition untitled_element :: media_element where
  "untitled_element = from_raw (sample_entry (Some ''20240101140000'') None None)"

text \<open>
  Two states ready for assembly, with the second show and the entry without a title in
  the programme stream. In the first the metadata of the show has no genres; in the
  second it has an episode sub-record without a season.
\<close>

definition assembly_state :: state where
  "assembly_state = no_genres_state\<lparr>MEDIA_GUIDE_OBJECT := [block_element, untitled_element]\<rparr>"

definition no_season_state :: state where
  "no_season_state =
     empty_state
       \<lparr>MEDIA_GUIDE_OBJECT := [block_element, untitled_element],
        all_episodes :=
          [(sample_info (Some [''Action'']))
             \<lparr>mi_queryUrl := Some ''q?name=Block%20B'',
              episode := Some \<lparr> season = None, epNum = Some 3, ep_name = Some ''Episode'',
                                ep_summary = None \<rparr>\<rparr>]\<rparr>"

section \<open>What each step changes\<close>

lemma log_call_fields [simp]:
  "MEDIA_GUIDE_OBJECT (log_call l m a st) = MEDIA_GUIDE_OBJECT st"
  "all_episodes (log_call l m a st) = all_episodes st"
  "TV_programme (log_call l m a st) = TV_programme st"
  "fetched (log_call l m a st) = fetched st"
  "LOGGER (log_call l m a st) = LOGGER st @ [(l, m, a)]"
  by (simp_all add: log_call_def)

lemma gpdt_Inr:
  "get_proper_date_time env d fmt st = Inr (r, st') \<longleftrightarrow>
     proper_date_time env d fmt = Inr r \<and>
     st' = log_call DEBUG ''Converting the date_time_string {} to format {}.''
             [date_log_arg d, LStr fmt] st"
  by (auto simp: get_proper_date_time_def Let_def split: sum.splits)

lemma proper_date_time_str_None:
  "proper_date_time env (DateStr s) fmt = Inr None \<longleftrightarrow> s = ''''"
  by (auto simp: proper_date_time_def split: sum.splits)

lemma get_json_frame:
  assumes "get_json_obj_from_url env url st = Inr (r, st')"
  shows "MEDIA_GUIDE_OBJECT st' = MEDIA_GUIDE_OBJECT st"
    and "all_episodes st' = all_episodes st"
    and "TV_programme st' = TV_programme st"
    and "fetched st' = fetched st @ [url]"
  using assms
  by (auto simp: get_json_obj_from_url_def Let_def split: url_response.splits if_splits sum.splits)

lemma get_media_info_hit:
  assumes "list_ex (\<lambda>element. mi_queryUrl element = Some key) (all_episodes st)"
  shows "get_media_info env key st =
           Inr (log_call DEBUG
                  ''Checking if the mediaInfo for {} is present in our current list before grabbing it.''
                  [LStr key] st)"
  using assms by (simp add: get_media_info_def Let_def)

lemma get_media_info_frame:
  assumes "get_media_info env key st = Inr st'"
  shows "MEDIA_GUIDE_OBJECT st' = MEDIA_GUIDE_OBJECT st"
    and "TV_programme st' = TV_programme st"
    and "prefix (all_episodes st) (all_episodes st')"
    and "prefix (fetched st) (fetched st')"
  using assms
  by (auto simp: get_media_info_def Let_def dest: get_json_frame
           split: if_splits sum.splits prod.splits option.splits)

lemma stop_time_Inr:
  assumes "stop_time env ch els pos m st = Inr (m1, st1)"
  shows "m1 = m\<lparr>stopDate := stopDate m1\<rparr>"
    and "name m1 = name m" and "blockName m1 = blockName m" and "startDate m1 = startDate m"
    and "episodeNumber m1 = episodeNumber m" and "info m1 = info m"
    and "queryUrl m1 = queryUrl m" and "channel m1 = channel m" and "lang m1 = lang m"
    and "channelUrl m1 = channelUrl m"
    and "MEDIA_GUIDE_OBJECT st1 = MEDIA_GUIDE_OBJECT st"
    and "all_episodes st1 = all_episodes st"
    and "TV_programme st1 = TV_programme st"
    and "fetched st1 = fetched st"
    and "int pos < int (length els) - 1 \<Longrightarrow>
           proper_date_time env (DateStr (py_str (startDate (els ! (pos + 1))) @ offset ch))
             NEW_DATE_FORMAT = Inr (stopDate m1)"
    and "\<not> int pos < int (length els) - 1 \<Longrightarrow> stopDate m1 = stopDate m"
  using assms
  by (auto simp: stop_time_def gpdt_Inr split: if_splits sum.splits prod.splits)

lemma block_name_fallback_fields [simp]:
  "name (block_name_fallback m) = (case name m of None \<Rightarrow> blockName m | Some n \<Rightarrow> Some n)"
  "startDate (block_name_fallback m) = startDate m"
  "stopDate (block_name_fallback m) = stopDate m"
  "blockName (block_name_fallback m) = blockName m"
  "episodeNumber (block_name_fallback m) = episodeNumber m"
  "info (block_name_fallback m) = info m"
  "queryUrl (block_name_fallback m) = queryUrl m"
  "lang (block_name_fallback m) = lang m"
  "channelUrl (block_name_fallback m) = channelUrl m"
  "channel (block_name_fallback m) = channel m"
  by (auto simp: block_name_fallback_def split: option.splits)

lemma block_name_fallback_untitled:
  "name m = None \<Longrightarrow> blockName m = None \<Longrightarrow> block_name_fallback m = m"
  by (simp add: block_name_fallback_def)

lemma named_element_Inr:
  assumes "named_element env ch m nm st = Inr (m4, st3)"
  shows "MEDIA_GUIDE_OBJECT st3 = MEDIA_GUIDE_OBJECT st"
    and "TV_programme st3 = TV_programme st"
    and "prefix (all_episodes st) (all_episodes st3)"
    and "prefix (fetched st) (fetched st3)"
    and "proper_date_time env (DateStr (py_str (startDate m) @ offset ch)) NEW_DATE_FORMAT
           = Inr (startDate m4)"
    and "full_query_url env ch m nm = Inr (the (queryUrl m4))"
    and "queryUrl m4 \<noteq> None"
    and "channel m4 = Some (ch_id ch)" and "lang m4 = Some (ch_lang ch)"
    and "channelUrl m4 = Some (ch_url ch)"
    and "name m4 = name m" and "stopDate m4 = stopDate m" and "blockName m4 = blockName m"
    and "episodeNumber m4 = episodeNumber m" and "info m4 = info m"
  using assms
  by (auto simp: named_element_def Let_def gpdt_Inr dest: get_media_info_frame
           split: sum.splits prod.splits)

lemma media_loop_body_untitled:
  assumes "name m = None" "blockName m = None"
    and "media_loop_body env ch els pos m st = Inr st'"
  shows "\<exists>m'. MEDIA_GUIDE_OBJECT st' = MEDIA_GUIDE_OBJECT st @ [m'] \<and>
              m' = m\<lparr>stopDate := stopDate m'\<rparr> \<and>
              all_episodes st' = all_episodes st \<and> fetched st' = fetched st \<and>
              TV_programme st' = TV_programme st"
proof -
  from assms(3) obtain m1 st1 where s: "stop_time env ch els pos m st = Inr (m1, st1)"
    by (auto simp: media_loop_body_def split: sum.splits)
  note f = stop_time_Inr [OF s]
  have n1: "name m1 = None" "blockName m1 = None"
    using assms(1,2) f(2,3) by simp_all
  have b: "block_name_fallback m1 = m1"
    using n1 by (simp add: block_name_fallback_untitled)
  have "st' = st1\<lparr>MEDIA_GUIDE_OBJECT := MEDIA_GUIDE_OBJECT st1 @ [m1]\<rparr>"
    using assms(3) by (simp add: media_loop_body_def s b n1)
  then show ?thesis
    using f(1) f(11-14) by (intro exI [of _ m1]) simp
qed

lemma media_loop_body_Inr:
  assumes "media_loop_body env ch els pos m st = Inr st'"
  shows "\<exists>m'. MEDIA_GUIDE_OBJECT st' = MEDIA_GUIDE_OBJECT st @ [m'] \<and>
     TV_programme st' = TV_programme st \<and>
     prefix (all_episodes st) (all_episodes st') \<and>
     prefix (fetched st) (fetched st') \<and>
     normalized_at env ch els pos m m'"
proof -
  from assms obtain m1 st1 where s: "stop_time env ch els pos m st = Inr (m1, st1)"
    by (auto simp: media_loop_body_def split: sum.splits)
  note f = stop_time_Inr [OF s]
  let ?m2 = "block_name_fallback m1"
  have n2: "name ?m2 = (case name m of None \<Rightarrow> blockName m | Some n \<Rightarrow> Some n)"
    using f(2,3) by (simp split: option.splits)
  show ?thesis
  proof (cases "name ?m2")
    case None
    then have "st' = st1\<lparr>MEDIA_GUIDE_OBJECT := MEDIA_GUIDE_OBJECT st1 @ [?m2]\<rparr>"
      using assms s by (simp add: media_loop_body_def)
    then show ?thesis
      using None n2 f(2-)
      by (intro exI [of _ ?m2]) (simp add: normalized_at_def split: if_splits)
  next
    case (Some nm)
    then obtain m4 st3 where ne: "named_element env ch ?m2 nm st1 = Inr (m4, st3)"
      and st': "st' = st3\<lparr>MEDIA_GUIDE_OBJECT := MEDIA_GUIDE_OBJECT st3 @ [m4]\<rparr>"
      using assms s by (auto simp: media_loop_body_def split: sum.splits)
    note g = named_element_Inr [OF ne]
    have r: "(case name m of None \<Rightarrow> blockName m | Some n \<Rightarrow> Some n) = Some nm"
      using n2 Some by simp
    have g': "name m4 = Some nm" "stopDate m4 = stopDate m1"
      "proper_date_time env (DateStr (py_str (startDate m) @ offset ch)) NEW_DATE_FORMAT
         = Inr (startDate m4)"
      "blockName m4 = blockName m" "episodeNumber m4 = episodeNumber m" "info m4 = info m"
      using g(5,11-15) Some f(3-6) by simp_all
    show ?thesis
      using st' r g' g(1-4,7-10) f(11-)
      by (intro exI [of _ m4]) (simp add: normalized_at_def split: if_splits)
  qed
qed

lemma media_loop_Inr:
  assumes "media_loop env ch els pos rest st = Inr st'"
  shows "\<exists>out. MEDIA_GUIDE_OBJECT st' = MEDIA_GUIDE_OBJECT st @ out \<and>
     length out = length rest \<and>
     TV_programme st' = TV_programme st \<and>
     prefix (all_episodes st) (all_episodes st') \<and>
     prefix (fetched st) (fetched st') \<and>
     (\<forall>i<length rest. normalized_at env ch els (pos + i) (rest ! i) (out ! i))"
  using assms
proof (induction rest arbitrary: pos st)
  case Nil
  then show ?case by simp
next
  case (Cons m rest)
  from Cons.prems obtain st1 where b: "media_loop_body env ch els pos m st = Inr st1"
    and l: "media_loop env ch els (pos + 1) rest st1 = Inr st'"
    by (auto split: sum.splits)
  from media_loop_body_Inr [OF b] obtain m' where
    m': "MEDIA_GUIDE_OBJECT st1 = MEDIA_GUIDE_OBJECT st @ [m']"
      "TV_programme st1 = TV_programme st"
      "prefix (all_episodes st) (all_episodes st1)"
      "prefix (fetched st) (fetched st1)"
      "normalized_at env ch els pos m m'"
    by blast
  from Cons.IH [OF l] obtain out where
    out: "MEDIA_GUIDE_OBJECT st' = MEDIA_GUIDE_OBJECT st1 @ out"
      "length out = length rest"
      "TV_programme st' = TV_programme st1"
      "prefix (all_episodes st1) (all_episodes st')"
      "prefix (fetched st1) (fetched st')"
      "\<forall>i<length rest. normalized_at env ch els (pos + 1 + i) (rest ! i) (out ! i)"
    by blast
  have "\<forall>i<length (m # rest). normalized_at env ch els (pos + i) ((m # rest) ! i) ((m' # out) ! i)"
  proof (intro allI impI)
    fix i assume "i < length (m # rest)"
    then show "normalized_at env ch els (pos + i) ((m # rest) ! i) ((m' # out) ! i)"
      using m'(5) out(6) by (cases i) simp_all
  qed
  moreover have "MEDIA_GUIDE_OBJECT st' = MEDIA_GUIDE_OBJECT st @ (m' # out)"
    using m'(1) out(1) by simp
  moreover have "prefix (all_episodes st) (all_episodes st')"
    using m'(3) out(4) by (rule prefix_order.trans)
  moreover have "prefix (fetched st) (fetched st')"
    using m'(4) out(5) by (rule prefix_order.trans)
  ultimately show ?case
    using out(2,3) m'(2) by (intro exI [of _ "m' # out"]) simp
qed

lemma get_media_scheduled:
  assumes "scheduleUrl ch = Some u"
    and "get_json_obj_from_url env (getScheduleUrl env ch (GUIDE_ITEMS_PER_CHANNEL env)) st
           = Inr (Some js, st1)"
    and "parse_media_root env js = Inr raws"
  shows "get_media env ch st =
           media_loop env ch (map from_raw raws) 0 (map from_raw raws)
             (log_call DEBUG
                ''Looping through the media object elements to add additional data and scrape the media info.''
                []
                (log_call DEBUG
                   ''Transforming json object from {} into XML and then again into a media XML object.''
                   [LStr (getScheduleUrl env ch (GUIDE_ITEMS_PER_CHANNEL env))] st1))"
  using assms by (simp add: get_media_def Let_def)

lemma get_media_no_data:
  assumes "scheduleUrl ch = Some u"
    and "get_json_obj_from_url env (getScheduleUrl env ch (GUIDE_ITEMS_PER_CHANNEL env)) st
           = Inr (None, st1)"
  shows "get_media env ch st =
           Inr (log_call ERROR ''The URL {} has no media info.''
                  [LStr (getScheduleUrl env ch (GUIDE_ITEMS_PER_CHANNEL env))] st1)"
  using assms by (simp add: get_media_def Let_def)

lemma from_raw_fields [simp]:
  "startDate (from_raw r) = raw_startDate r" "stopDate (from_raw r) = None"
  "name (from_raw r) = raw_name r" "blockName (from_raw r) = raw_blockName r"
  "episodeNumber (from_raw r) = raw_episodeNumber r" "info (from_raw r) = raw_info r"
  "queryUrl (from_raw r) = None" "lang (from_raw r) = None"
  "channelUrl (from_raw r) = None" "channel (from_raw r) = None"
  by (simp_all add: from_raw_def)

lemma get_media_schedule_out:
  assumes "scheduleUrl ch = Some u"
    and "get_json_obj_from_url env (getScheduleUrl env ch (GUIDE_ITEMS_PER_CHANNEL env)) st
           = Inr (Some js, st1)"
    and "parse_media_root env js = Inr raws"
    and "get_media env ch st = Inr st'"
  shows "\<exists>out. MEDIA_GUIDE_OBJECT st' = MEDIA_GUIDE_OBJECT st @ out \<and>
     length out = length raws \<and>
     TV_programme st' = TV_programme st \<and>
     prefix (all_episodes st) (all_episodes st') \<and>
     prefix (fetched st) (fetched st') \<and>
     (\<forall>i<length raws.
        normalized_at env ch (map from_raw raws) i (from_raw (raws ! i)) (out ! i))"
proof -
  let ?s = "log_call DEBUG
      ''Looping through the media object elements to add additional data and scrape the media info.''
      []
      (log_call DEBUG
         ''Transforming json object from {} into XML and then again into a media XML object.''
         [LStr (getScheduleUrl env ch (GUIDE_ITEMS_PER_CHANNEL env))] st1)"
  have l: "media_loop env ch (map from_raw raws) 0 (map from_raw raws) ?s = Inr st'"
    using get_media_scheduled [OF assms(1-3)] assms(4) by simp
  from media_loop_Inr [OF l] obtain out where
    out: "MEDIA_GUIDE_OBJECT st' = MEDIA_GUIDE_OBJECT ?s @ out"
      "length out = length (map from_raw raws)"
      "TV_programme st' = TV_programme ?s"
      "prefix (all_episodes ?s) (all_episodes st')"
      "prefix (fetched ?s) (fetched st')"
      "\<forall>i<length (map from_raw raws).
         normalized_at env ch (map from_raw raws) (0 + i) (map from_raw raws ! i) (out ! i)"
    by blast
  note j = get_json_frame [OF assms(2)]
  have "prefix (fetched st) (fetched st')"
    using out(5) j(4) by (auto simp: prefix_def)
  then show ?thesis
    using out j by (intro exI [of _ out]) simp
qed

lemma mock_loop_Inr:
  "\<exists>st'. mock_loop env ch blocks st = Inr st' \<and>
     TV_programme st' = TV_programme st @
       map (\<lambda>b. mock_programme ch (Some (strftime env b NEW_DATE_FORMAT_NO_TZ))
                    (Some (strftime env (b + 3600) NEW_DATE_FORMAT_NO_TZ))) blocks \<and>
     MEDIA_GUIDE_OBJECT st' = MEDIA_GUIDE_OBJECT st \<and>
     all_episodes st' = all_episodes st \<and> fetched st' = fetched st"
proof (induction blocks arbitrary: st)
  case Nil
  then show ?case by simp
next
  case (Cons b blocks)
  let ?s1 = "log_call DEBUG ''Converting the date_time_string {} to format {}.''
               [LTime b, LStr NEW_DATE_FORMAT_NO_TZ] st"
  let ?s2 = "log_call DEBUG ''Converting the date_time_string {} to format {}.''
               [LTime (b + 3600), LStr NEW_DATE_FORMAT_NO_TZ] ?s1"
  let ?p = "mock_programme ch (Some (strftime env b NEW_DATE_FORMAT_NO_TZ))
              (Some (strftime env (b + 3600) NEW_DATE_FORMAT_NO_TZ))"
  let ?s3 = "log_call DEBUG ''Making 1 hour block from {} until {}.''
               [LOpt (Some (strftime env b NEW_DATE_FORMAT_NO_TZ)),
                LOpt (Some (strftime env (b + 3600) NEW_DATE_FORMAT_NO_TZ))] ?s2"
  let ?s4 = "?s3\<lparr>TV_programme := TV_programme ?s3 @ [?p]\<rparr>"
  have e: "mock_loop env ch (b # blocks) st = mock_loop env ch blocks ?s4"
    by (simp add: get_proper_date_time_def proper_date_time_def Let_def)
  from Cons.IH [of ?s4] obtain st' where
    "mock_loop env ch blocks ?s4 = Inr st'"
    "TV_programme st' = TV_programme ?s4 @
       map (\<lambda>b. mock_programme ch (Some (strftime env b NEW_DATE_FORMAT_NO_TZ))
                    (Some (strftime env (b + 3600) NEW_DATE_FORMAT_NO_TZ))) blocks"
    "MEDIA_GUIDE_OBJECT st' = MEDIA_GUIDE_OBJECT ?s4"
    "all_episodes st' = all_episodes ?s4" "fetched st' = fetched ?s4"
    by blast
  then show ?case
    using e by (intro exI [of _ st']) simp
qed

lemma rrule_hourly_day: "rrule_hourly t (t + 86400) = map (\<lambda>k. t + 3600 * int k) [0 ..< 25]"
  by (simp add: rrule_hourly_def)

lemma get_media_mock:
  assumes "scheduleUrl ch = None"
  shows "\<exists>st'. get_media env ch st = Inr st' \<and>
     TV_programme st' = TV_programme st @
       map (\<lambda>b. mock_programme ch (Some (strftime env b NEW_DATE_FORMAT_NO_TZ))
                    (Some (strftime env (b + 3600) NEW_DATE_FORMAT_NO_TZ)))
         (map (\<lambda>k. (now env (length (fetched st)) - now env (length (fetched st)) mod 3600)
                    + 3600 * int k) [0 ..< 25]) \<and>
     MEDIA_GUIDE_OBJECT st' = MEDIA_GUIDE_OBJECT st \<and>
     all_episodes st' = all_episodes st \<and> fetched st' = fetched st"
proof -
  let ?t = "now env (length (fetched st)) - now env (length (fetched st)) mod 3600"
  let ?s1 = "log_call DEBUG
      ''The channel {} doesn't have a TV guide - Making a 24 hour Mock guide from {} until {}.''
      [LStr (displayName ch), LTime ?t, LTime (?t + 86400)] st"
  have e: "get_media env ch st = mock_loop env ch (rrule_hourly ?t (?t + 86400)) ?s1"
    using assms by (simp add: get_media_def Let_def)
  from mock_loop_Inr [of env ch "rrule_hourly ?t (?t + 86400)" ?s1] obtain st' where
    "mock_loop env ch (rrule_hourly ?t (?t + 86400)) ?s1 = Inr st'"
    "TV_programme st' = TV_programme ?s1 @
       map (\<lambda>b. mock_programme ch (Some (strftime env b NEW_DATE_FORMAT_NO_TZ))
                    (Some (strftime env (b + 3600) NEW_DATE_FORMAT_NO_TZ)))
         (rrule_hourly ?t (?t + 86400))"
    "MEDIA_GUIDE_OBJECT st' = MEDIA_GUIDE_OBJECT ?s1"
    "all_episodes st' = all_episodes ?s1" "fetched st' = fetched ?s1"
    by blast
  then show ?thesis
    using e by (intro exI [of _ st']) (simp add: rrule_hourly_day)
qed

lemma get_media_cases:
  assumes "get_media env ch st = Inr st'"
  obtains (mock) "scheduleUrl ch = None"
  | (no_data) u st1 where "scheduleUrl ch = Some u"
      "get_json_obj_from_url env (getScheduleUrl env ch (GUIDE_ITEMS_PER_CHANNEL env)) st
         = Inr (None, st1)"
  | (schedule) u js st1 raws where "scheduleUrl ch = Some u"
      "get_json_obj_from_url env (getScheduleUrl env ch (GUIDE_ITEMS_PER_CHANNEL env)) st
         = Inr (Some js, st1)"
      "parse_media_root env js = Inr raws"
  using assms
  by (auto simp: get_media_def Let_def split: option.splits sum.splits prod.splits)

lemma get_media_frame:
  assumes "get_media env ch st = Inr st'"
  shows "prefix (all_episodes st) (all_episodes st')"
    and "prefix (fetched st) (fetched st')"
    and "prefix (MEDIA_GUIDE_OBJECT st) (MEDIA_GUIDE_OBJECT st')"
    and "prefix (TV_programme st) (TV_programme st')"
proof -
  have "prefix (all_episodes st) (all_episodes st') \<and> prefix (fetched st) (fetched st') \<and>
    prefix (MEDIA_GUIDE_OBJECT st) (MEDIA_GUIDE_OBJECT st') \<and>
    prefix (TV_programme st) (TV_programme st')"
    using assms
  proof (cases rule: get_media_cases)
    case mock
    from get_media_mock [OF mock, of env st] assms show ?thesis
      by auto
  next
    case (no_data u st1)
    from get_media_no_data [OF no_data] assms get_json_frame [OF no_data(2)] show ?thesis
      by auto
  next
    case (schedule u js st1 raws)
    from get_media_schedule_out [OF schedule assms] show ?thesis
      by auto
  qed
  then show "prefix (all_episodes st) (all_episodes st')"
    and "prefix (fetched st) (fetched st')"
    and "prefix (MEDIA_GUIDE_OBJECT st) (MEDIA_GUIDE_OBJECT st')"
    and "prefix (TV_programme st) (TV_programme st')"
    by simp_all
qed

lemma channels_loop_frame:
  assumes "channels_loop env chs st = Inr st'"
  shows "prefix (all_episodes st) (all_episodes st') \<and> prefix (fetched st) (fetched st') \<and>
    prefix (MEDIA_GUIDE_OBJECT st) (MEDIA_GUIDE_OBJECT st') \<and>
    prefix (TV_programme st) (TV_programme st')"
  using assms
proof (induction chs arbitrary: st)
  case Nil
  then show ?case by simp
next
  case (Cons ch chs)
  from Cons.prems obtain st1 where g: "get_media env ch st = Inr st1"
    and l: "channels_loop env chs st1 = Inr st'"
    by (auto split: sum.splits)
  from get_media_frame [OF g] Cons.IH [OF l] show ?case
    by (meson prefix_order.trans)
qed

lemma with_media_info_state:
  "with_media_info env m mi st = Inr (p, st1) \<Longrightarrow>
     MEDIA_GUIDE_OBJECT st1 = MEDIA_GUIDE_OBJECT st \<and> all_episodes st1 = all_episodes st \<and>
     TV_programme st1 = TV_programme st \<and> fetched st1 = fetched st \<and>
     p_channel p = channel m \<and> p_start p = startDate m \<and> p_stop p = stopDate m \<and>
     proper_date_time env (date_of_opt (releaseDate mi)) NEW_DATE_FORMAT_MINIMAL = Inr (p_date p)"
  by (auto simp: with_media_info_def plain_programme_def Let_def gpdt_Inr
           split: option.splits sum.splits prod.splits)

lemma with_media_info_error_state:
  "with_media_info env m mi st = Inl (e, st1) \<Longrightarrow>
     MEDIA_GUIDE_OBJECT st1 = MEDIA_GUIDE_OBJECT st \<and> all_episodes st1 = all_episodes st \<and>
     TV_programme st1 = TV_programme st \<and> fetched st1 = fetched st"
  by (auto simp: with_media_info_def Let_def gpdt_Inr
           split: option.splits sum.splits prod.splits)

lemma with_episode_fields:
  "with_episode m ep p = Inr p' \<Longrightarrow>
     p_channel p' = p_channel p \<and> p_start p' = p_start p \<and> p_stop p' = p_stop p \<and>
     p_date p' = p_date p"
  by (auto simp: with_episode_def split: option.splits)

lemma derive_programme_Inr:
  assumes "derive_programme env m mio st = Inr (p, st1)"
  shows "MEDIA_GUIDE_OBJECT st1 = MEDIA_GUIDE_OBJECT st" "all_episodes st1 = all_episodes st"
    "TV_programme st1 = TV_programme st" "fetched st1 = fetched st"
    "p_channel p = channel m" "p_start p = startDate m" "p_stop p = stopDate m"
  using assms
  by (auto simp: derive_programme_def plain_programme_def Let_def
           dest!: with_media_info_state with_episode_fields
           split: option.splits sum.splits prod.splits)

lemma derive_programme_Inl:
  assumes "derive_programme env m mio st = Inl (e, st1)"
  shows "MEDIA_GUIDE_OBJECT st1 = MEDIA_GUIDE_OBJECT st" "all_episodes st1 = all_episodes st"
    "TV_programme st1 = TV_programme st" "fetched st1 = fetched st"
  using assms
  by (auto simp: derive_programme_def 
           dest!: with_media_info_state with_media_info_error_state
           split: option.splits sum.splits prod.splits)

lemma derive_programme_date:
  assumes "derive_programme env m (Some mi) st = Inr (p, st1)"
  shows "proper_date_time env (date_of_opt (releaseDate mi)) NEW_DATE_FORMAT_MINIMAL
           = Inr (p_date p)"
  using assms
  by (auto simp: derive_programme_def
           dest!: with_media_info_state with_episode_fields
           split: option.splits sum.splits prod.splits)

lemma adapt_loop_Inr:
  assumes "adapt_loop env ms st = Inr st'"
  shows "\<exists>kept asm. subseq kept ms \<and> TV_programme st' = TV_programme st @ asm \<and>
     map (\<lambda>p. (p_channel p, p_start p, p_stop p)) asm =
       map (\<lambda>m. (channel m, startDate m, stopDate m)) kept \<and>
     all_episodes st' = all_episodes st \<and> MEDIA_GUIDE_OBJECT st' = MEDIA_GUIDE_OBJECT st \<and>
     fetched st' = fetched st"
  using assms
proof (induction ms arbitrary: st)
  case Nil
  then show ?case by simp
next
  case (Cons m ms)
  let ?mio = "find (\<lambda>element. mi_queryUrl element = queryUrl m) (all_episodes st)"
  let ?st1 = "case ?mio of None \<Rightarrow> st
     | Some element \<Rightarrow> log_call DEBUG
         ''Found the corresponding mediaInfo object for the media_object with a url of {}.''
         [LOpt (queryUrl m)] st"
  have f1: "MEDIA_GUIDE_OBJECT ?st1 = MEDIA_GUIDE_OBJECT st" "all_episodes ?st1 = all_episodes st"
    "TV_programme ?st1 = TV_programme st" "fetched ?st1 = fetched st"
    by (simp_all split: option.splits)
  show ?case
  proof (cases "derive_programme env m ?mio ?st1")
    case (Inr r)
    obtain p st2 where r: "r = (p, st2)" by (cases r)
    note d = derive_programme_Inr [OF Inr [unfolded r]]
    let ?s = "st2\<lparr>TV_programme := TV_programme st2 @ [p]\<rparr>"
    have l: "adapt_loop env ms ?s = Inr st'"
      using Cons.prems Inr r by (simp add: Let_def)
    from Cons.IH [OF l] obtain kept asm where
      k: "subseq kept ms" "TV_programme st' = TV_programme ?s @ asm"
        "map (\<lambda>p. (p_channel p, p_start p, p_stop p)) asm =
           map (\<lambda>m. (channel m, startDate m, stopDate m)) kept"
        "all_episodes st' = all_episodes ?s" "MEDIA_GUIDE_OBJECT st' = MEDIA_GUIDE_OBJECT ?s"
        "fetched st' = fetched ?s"
      by blast
    show ?thesis
      using k d f1 by (intro exI [of _ "m # kept"] exI [of _ "p # asm"]) simp
  next
    case (Inl x)
    obtain e st2 where x: "x = (e, st2)" by (cases x)
    note d = derive_programme_Inl [OF Inl [unfolded x]]
    let ?s = "log_call ERROR
        (''Unable to add element: '' @ [CHR 0x0A, CHR 0x09] @ '' --Element: {} ''
           @ [CHR 0x0A, CHR 0x09] @ '' --Info Element: {} ''
           @ [CHR 0x0A, CHR 0x09] @ '' --Reason: {}.'')
        [LMedia m, LInfo ?mio, LErr e] st2"
    have e: "e = AttributeError" and l: "adapt_loop env ms ?s = Inr st'"
      using Cons.prems Inl x by (simp_all add: Let_def split: if_splits)
    from Cons.IH [OF l] obtain kept asm where
      k: "subseq kept ms" "TV_programme st' = TV_programme ?s @ asm"
        "map (\<lambda>p. (p_channel p, p_start p, p_stop p)) asm =
           map (\<lambda>m. (channel m, startDate m, stopDate m)) kept"
        "all_episodes st' = all_episodes ?s" "MEDIA_GUIDE_OBJECT st' = MEDIA_GUIDE_OBJECT ?s"
        "fetched st' = fetched ?s"
      by blast
    have "subseq kept (m # ms)"
      using k(1) by (rule list_emb_Cons)
    then show ?thesis
      using k(2-) d f1 by (intro exI [of _ kept] exI [of _ asm]) simp
  qed
qed

lemma adapt_loop_not_AttributeError: "adapt_loop env ms st \<noteq> Inl AttributeError"
proof (induction ms arbitrary: st)
  case Nil
  then show ?case by simp
next
  case (Cons m ms)
  then show ?case
    by (simp add: Let_def split: sum.splits prod.splits)
qed

lemma main_frame:
  assumes "main env chs st = Inr st'"
  shows "prefix (all_episodes st) (all_episodes st')"
proof -
  from assms obtain st1 where c: "channels_loop env chs st = Inr st1"
    and a: "adapt_media_objects_to_xmltv_object env st1 = Inr st'"
    by (auto simp: main_def split: sum.splits)
  from a have "all_episodes st' = all_episodes st1"
    by (auto simp: adapt_media_objects_to_xmltv_object_def dest!: adapt_loop_Inr)
  with channels_loop_frame [OF c] show ?thesis by simp
qed

lemma get_json_empty_source:
  assumes "urlopen_read env (length (fetched st)) url = URLError \<or>
           urlopen_read env (length (fetched st)) url = Body ''''"
  shows "\<exists>s. get_json_obj_from_url env url st = Inr (None, s) \<and>
     fetched s = fetched st @ [url] \<and> all_episodes s = all_episodes st \<and>
     MEDIA_GUIDE_OBJECT s = MEDIA_GUIDE_OBJECT st \<and> TV_programme s = TV_programme st \<and>
     (last (LOGGER s) =
        (ERROR, ''Error getting data from URL {} due to connection issue.'',
         [LStr url, LURLError]) \<or>
      last (LOGGER s) = (DEBUG, ''Couldn't scrape data from the url: {}'', [LStr url]))"
  using assms by (auto simp: get_json_obj_from_url_def Let_def)

lemma gpdt_Inl:
  "get_proper_date_time env d fmt st = Inl e \<longleftrightarrow> proper_date_time env d fmt = Inl e"
  by (auto simp: get_proper_date_time_def Let_def split: sum.splits)

lemma with_media_info_indep:
  "with_media_info env m mi s = Inr (p, s1) \<Longrightarrow> \<exists>t1. with_media_info env m mi t = Inr (p, t1)"
  "with_media_info env m mi s = Inl (e, s1) \<Longrightarrow> \<exists>t1. with_media_info env m mi t = Inl (e, t1)"
  by (auto simp: with_media_info_def gpdt_Inr gpdt_Inl
           split: option.splits sum.splits prod.splits)

lemma derive_programme_indep:
  "derive_programme env m mio s = Inr (p, s1) \<Longrightarrow>
     \<exists>t1. derive_programme env m mio t = Inr (p, t1)"
  "derive_programme env m mio s = Inl (e, s1) \<Longrightarrow>
     \<exists>t1. derive_programme env m mio t = Inl (e, t1)"
proof -
  assume a: "derive_programme env m mio s = Inr (p, s1)"
  show "\<exists>t1. derive_programme env m mio t = Inr (p, t1)"
  proof (cases mio)
    case None
    then show ?thesis using a by (simp add: derive_programme_def)
  next
    case (Some mi)
    with a obtain q s0 where w: "with_media_info env m mi s = Inr (q, s0)"
      by (auto simp: derive_programme_def split: sum.splits)
    from with_media_info_indep(1) [OF w, of t] obtain t0 where
      "with_media_info env m mi t = Inr (q, t0)" by blast
    then show ?thesis
      using a Some w by (auto simp: derive_programme_def split: option.splits sum.splits)
  qed
next
  assume a: "derive_programme env m mio s = Inl (e, s1)"
  show "\<exists>t1. derive_programme env m mio t = Inl (e, t1)"
  proof (cases mio)
    case None
    then show ?thesis using a by (simp add: derive_programme_def)
  next
    case (Some mi)
    show ?thesis
    proof (cases "with_media_info env m mi s")
      case (Inl x)
      then obtain s0 where w: "with_media_info env m mi s = Inl (e, s0)"
        using a Some by (cases x) (simp add: derive_programme_def)
      from with_media_info_indep(2) [OF w, of t] obtain t0 where
        "with_media_info env m mi t = Inl (e, t0)" by blast
      then show ?thesis
        using Some by (simp add: derive_programme_def)
    next
      case (Inr y)
      then obtain q s0 where w: "with_media_info env m mi s = Inr (q, s0)"
        by (cases y) simp
      from with_media_info_indep(1) [OF w, of t] obtain t0 where
        "with_media_info env m mi t = Inr (q, t0)" by blast
      then show ?thesis
        using a Some w by (auto simp: derive_programme_def split: option.splits sum.splits)
    qed
  qed
qed

lemma adapt_loop_cong:
  assumes "adapt_loop env ms s = Inr s'" "all_episodes t = all_episodes s"
  shows "\<exists>t' asm. adapt_loop env ms t = Inr t' \<and>
     TV_programme s' = TV_programme s @ asm \<and> TV_programme t' = TV_programme t @ asm"
  using assms
proof (induction ms arbitrary: s t)
  case Nil
  then show ?case by simp
next
  case (Cons m ms)
  let ?mio = "find (\<lambda>element. mi_queryUrl element = queryUrl m) (all_episodes s)"
  let ?f = "\<lambda>st. case ?mio of None \<Rightarrow> st
     | Some element \<Rightarrow> log_call DEBUG
         ''Found the corresponding mediaInfo object for the media_object with a url of {}.''
         [LOpt (queryUrl m)] st"
  have f1: "all_episodes (?f st) = all_episodes st" "TV_programme (?f st) = TV_programme st"
    for st by (simp_all split: option.splits)
  show ?case
  proof (cases "derive_programme env m ?mio (?f s)")
    case (Inr r)
    obtain p s2 where r: "r = (p, s2)" by (cases r)
    from derive_programme_indep(1) [OF Inr [unfolded r], of "?f t"] obtain t2 where
      dt: "derive_programme env m ?mio (?f t) = Inr (p, t2)" by blast
    note ds = derive_programme_Inr [OF Inr [unfolded r]]
    note dt' = derive_programme_Inr [OF dt]
    let ?s3 = "s2\<lparr>TV_programme := TV_programme s2 @ [p]\<rparr>"
    let ?t3 = "t2\<lparr>TV_programme := TV_programme t2 @ [p]\<rparr>"
    have ls: "adapt_loop env ms ?s3 = Inr s'"
      using Cons.prems(1) Inr r by (simp add: Let_def)
    have e: "all_episodes ?t3 = all_episodes ?s3"
      using ds(2) dt'(2) f1(1) Cons.prems(2) by simp
    from Cons.IH [OF ls e] obtain t' asm where
      k: "adapt_loop env ms ?t3 = Inr t'" "TV_programme s' = TV_programme ?s3 @ asm"
        "TV_programme t' = TV_programme ?t3 @ asm"
      by blast
    have "adapt_loop env (m # ms) t = Inr t'"
      using k(1) dt Cons.prems(2) by (simp add: Let_def)
    moreover have "TV_programme s' = TV_programme s @ (p # asm)"
      using k(2) ds(3) f1(2) by simp
    moreover have "TV_programme t' = TV_programme t @ (p # asm)"
      using k(3) dt'(3) f1(2) by simp
    ultimately show ?thesis by blast
  next
    case (Inl x)
    obtain e s2 where x: "x = (e, s2)" by (cases x)
    from derive_programme_indep(2) [OF Inl [unfolded x], of "?f t"] obtain t2 where
      dt: "derive_programme env m ?mio (?f t) = Inl (e, t2)" by blast
    note ds = derive_programme_Inl [OF Inl [unfolded x]]
    note dt' = derive_programme_Inl [OF dt]
    let ?msg = "''Unable to add element: '' @ [CHR 0x0A, CHR 0x09] @ '' --Element: {} ''
           @ [CHR 0x0A, CHR 0x09] @ '' --Info Element: {} ''
           @ [CHR 0x0A, CHR 0x09] @ '' --Reason: {}.''"
    let ?s3 = "log_call ERROR ?msg [LMedia m, LInfo ?mio, LErr e] s2"
    let ?t3 = "log_call ERROR ?msg [LMedia m, LInfo ?mio, LErr e] t2"
    have ea: "e = AttributeError" and ls: "adapt_loop env ms ?s3 = Inr s'"
      using Cons.prems(1) Inl x by (simp_all add: Let_def split: if_splits)
    have e: "all_episodes ?t3 = all_episodes ?s3"
      using ds(2) dt'(2) f1(1) Cons.prems(2) by simp
    from Cons.IH [OF ls e] obtain t' asm where
      k: "adapt_loop env ms ?t3 = Inr t'" "TV_programme s' = TV_programme ?s3 @ asm"
        "TV_programme t' = TV_programme ?t3 @ asm"
      by blast
    have "adapt_loop env (m # ms) t = Inr t'"
      using k(1) dt ea Cons.prems(2) by (simp add: Let_def)
    moreover have "TV_programme s' = TV_programme s @ asm"
      using k(2) ds(3) f1(2) by simp
    moreover have "TV_programme t' = TV_programme t @ asm"
      using k(3) dt'(3) f1(2) by simp
    ultimately show ?thesis by blast
  qed
qed

lemma get_media_segment:
  assumes "get_media env ch st = Inr st'"
  shows "\<exists>g ps. MEDIA_GUIDE_OBJECT st' = MEDIA_GUIDE_OBJECT st @ g \<and>
     TV_programme st' = TV_programme st @ ps \<and> channel_segment env ch g ps"
  using assms
proof (cases rule: get_media_cases)
  case mock
  let ?t = "now env (length (fetched st)) - now env (length (fetched st)) mod 3600"
  let ?ps = "map (\<lambda>b. mock_programme ch (Some (strftime env b NEW_DATE_FORMAT_NO_TZ))
                    (Some (strftime env (b + 3600) NEW_DATE_FORMAT_NO_TZ)))
         (map (\<lambda>k. ?t + 3600 * int k) [0 ..< 25])"
  from get_media_mock [OF mock, of env st] assms have
    g: "TV_programme st' = TV_programme st @ ?ps"
      "MEDIA_GUIDE_OBJECT st' = MEDIA_GUIDE_OBJECT st"
    by auto
  have "?ps = map (\<lambda>k. mock_programme ch
                      (Some (strftime env (?t + 3600 * int k) NEW_DATE_FORMAT_NO_TZ))
                      (Some (strftime env (?t + 3600 * int (k + 1)) NEW_DATE_FORMAT_NO_TZ)))
                [0 ..< 25]"
    by (simp del: upt_Suc add: algebra_simps comp_def)
  then have "channel_segment env ch [] ?ps"
    unfolding channel_segment_def using mock by (simp del: upt_Suc map_map) blast
  with g show ?thesis
    by (intro exI [of _ "[]"] exI [of _ ?ps]) simp
next
  case (no_data u st1)
  from get_media_no_data [OF no_data] assms get_json_frame [OF no_data(2)]
  have "MEDIA_GUIDE_OBJECT st' = MEDIA_GUIDE_OBJECT st" "TV_programme st' = TV_programme st"
    by auto
  moreover have "channel_segment env ch [] []"
    using no_data(1) by (simp add: channel_segment_def)
  ultimately show ?thesis
    by (intro exI [of _ "[]"]) simp
next
  case (schedule u js st1 raws)
  from get_media_schedule_out [OF schedule assms] obtain out where
    out: "MEDIA_GUIDE_OBJECT st' = MEDIA_GUIDE_OBJECT st @ out" "length out = length raws"
      "TV_programme st' = TV_programme st"
    and n: "\<forall>i<length raws.
        normalized_at env ch (map from_raw raws) i (from_raw (raws ! i)) (out ! i)"
    by blast
  have "blockName (out ! j) = raw_blockName (raws ! j) \<and>
        episodeNumber (out ! j) = raw_episodeNumber (raws ! j) \<and>
        info (out ! j) = raw_info (raws ! j) \<and>
        name (out ! j) =
          (case raw_name (raws ! j) of None \<Rightarrow> raw_blockName (raws ! j) | Some n \<Rightarrow> Some n) \<and>
        (name (out ! j) \<noteq> None \<longrightarrow> channel (out ! j) = Some (ch_id ch))"
    if "j < length raws" for j
  proof -
    have "normalized_at env ch (map from_raw raws) j (from_raw (raws ! j)) (out ! j)"
      using n that by simp
    then show ?thesis
      by (auto simp: normalized_at_def split: if_splits option.splits)
  qed
  then have "channel_segment env ch out []"
    unfolding channel_segment_def using schedule(1,3) out(2) by auto
  with out show ?thesis
    by (intro exI [of _ out] exI [of _ "[]"]) simp
qed

lemma channels_loop_segments:
  assumes "channels_loop env chs st = Inr st'"
  shows "\<exists>segs. length segs = length chs \<and>
     (\<forall>i<length chs. channel_segment env (chs ! i) (fst (segs ! i)) (snd (segs ! i))) \<and>
     MEDIA_GUIDE_OBJECT st' = MEDIA_GUIDE_OBJECT st @ concat (map fst segs) \<and>
     TV_programme st' = TV_programme st @ concat (map snd segs)"
  using assms
proof (induction chs arbitrary: st)
  case Nil
  then show ?case by simp
next
  case (Cons ch chs)
  from Cons.prems obtain st1 where g: "get_media env ch st = Inr st1"
    and l: "channels_loop env chs st1 = Inr st'"
    by (auto split: sum.splits)
  from get_media_segment [OF g] obtain gd ps where
    s: "MEDIA_GUIDE_OBJECT st1 = MEDIA_GUIDE_OBJECT st @ gd"
      "TV_programme st1 = TV_programme st @ ps" "channel_segment env ch gd ps"
    by blast
  from Cons.IH [OF l] obtain segs where
    r: "length segs = length chs"
      "\<forall>i<length chs. channel_segment env (chs ! i) (fst (segs ! i)) (snd (segs ! i))"
      "MEDIA_GUIDE_OBJECT st' = MEDIA_GUIDE_OBJECT st1 @ concat (map fst segs)"
      "TV_programme st' = TV_programme st1 @ concat (map snd segs)"
    by blast
  let ?segs = "(gd, ps) # segs"
  have "\<forall>i<length (ch # chs).
      channel_segment env ((ch # chs) ! i) (fst (?segs ! i)) (snd (?segs ! i))"
  proof (intro allI impI)
    fix i assume "i < length (ch # chs)"
    then show "channel_segment env ((ch # chs) ! i) (fst (?segs ! i)) (snd (?segs ! i))"
      using s(3) r(2) by (cases i) simp_all
  qed
  then show ?case
    using s(1,2) r(1,3,4) by (intro exI [of _ ?segs]) simp
qed

lemma mixed_run:
  "\<exists>st'. main sample_env [sample_channel, mock_channel] empty_state = Inr st' \<and>
     map p_channel (TV_programme st') = replicate 25 (Some ''ch2'') @ [Some ''ch1'', None]"
proof -
  have "map_sum id TV_programme (get_media sample_env sample_channel empty_state) = Inr []"
    by code_simp
  then obtain s1 where g1: "get_media sample_env sample_channel empty_state = Inr s1"
    and tv1: "TV_programme s1 = []"
    by (cases "get_media sample_env sample_channel empty_state") auto
  have "map_sum id (map p_channel \<circ> TV_programme)
          (main sample_env [sample_channel] empty_state) = Inr [Some ''ch1'', None]"
    by code_simp
  then obtain sA where
    a1: "adapt_media_objects_to_xmltv_object sample_env s1 = Inr sA"
    and tvA: "map p_channel (TV_programme sA) = [Some ''ch1'', None]"
    using g1 by (cases "adapt_media_objects_to_xmltv_object sample_env s1")
                (auto simp: main_def)
  have m: "scheduleUrl mock_channel = None"
    by (simp add: mock_channel_def)
  let ?t = "now sample_env (length (fetched s1)) - now sample_env (length (fetched s1)) mod 3600"
  let ?ps = "map (\<lambda>b. mock_programme mock_channel
                      (Some (strftime sample_env b NEW_DATE_FORMAT_NO_TZ))
                      (Some (strftime sample_env (b + 3600) NEW_DATE_FORMAT_NO_TZ)))
         (map (\<lambda>k. ?t + 3600 * int k) [0 ..< 25])"
  from get_media_mock [OF m, of sample_env s1] obtain s2 where
    g2: "get_media sample_env mock_channel s1 = Inr s2"
      "TV_programme s2 = TV_programme s1 @ ?ps"
      "MEDIA_GUIDE_OBJECT s2 = MEDIA_GUIDE_OBJECT s1" "all_episodes s2 = all_episodes s1"
    by blast
  let ?l = "log_call DEBUG ''Going to adapt media objects into xmltv objects.'' []"
  have la: "adapt_loop sample_env (MEDIA_GUIDE_OBJECT s1) (?l s1) = Inr sA"
    using a1 by (simp add: adapt_media_objects_to_xmltv_object_def)
  have "all_episodes (?l s2) = all_episodes (?l s1)"
    using g2(4) by simp
  from adapt_loop_cong [OF la this] obtain t' asm where
    c: "adapt_loop sample_env (MEDIA_GUIDE_OBJECT s1) (?l s2) = Inr t'"
      "TV_programme sA = TV_programme (?l s1) @ asm"
      "TV_programme t' = TV_programme (?l s2) @ asm"
    by blast
  have "main sample_env [sample_channel, mock_channel] empty_state = Inr t'"
    using g1 g2(1,3) c(1) by (simp add: main_def adapt_media_objects_to_xmltv_object_def)
  moreover have "map p_channel ?ps = replicate 25 (Some ''ch2'')"
    by (simp del: upt_Suc add: comp_def mock_programme_def mock_channel_def map_replicate_const)
  then have "map p_channel (TV_programme t') = replicate 25 (Some ''ch2'') @ [Some ''ch1'', None]"
    using c(2,3) tv1 tvA g2(2) by simp
  ultimately show ?thesis by blast
qed

lemma derive_programme_outcome:
  "map_sum fst fst (derive_programme env m mio s) = map_sum fst fst (derive_programme env m mio t)"
proof (cases "derive_programme env m mio s")
  case (Inl x)
  obtain e s1 where x: "x = (e, s1)" by (cases x)
  from derive_programme_indep(2) [OF Inl [unfolded x], of t] obtain t1 where
    "derive_programme env m mio t = Inl (e, t1)" by blast
  with Inl x show ?thesis by simp
next
  case (Inr y)
  obtain p s1 where y: "y = (p, s1)" by (cases y)
  from derive_programme_indep(1) [OF Inr [unfolded y], of t] obtain t1 where
    "derive_programme env m mio t = Inr (p, t1)" by blast
  with Inr y show ?thesis by simp
qed

lemma programme_outcome_eq:
  "all_episodes s = cache \<Longrightarrow>
   map_sum fst fst
     (derive_programme env m (find (\<lambda>element. mi_queryUrl element = queryUrl m) cache) s)
   = programme_outcome env cache m"
  unfolding programme_outcome_def by (rule derive_programme_outcome)

lemma with_media_info_logger:
  "with_media_info env m mi s = Inr (p, s1) \<Longrightarrow> set (LOGGER s) \<subseteq> set (LOGGER s1)"
  "with_media_info env m mi s = Inl (e, s1) \<Longrightarrow> set (LOGGER s) \<subseteq> set (LOGGER s1)"
  by (auto simp: with_media_info_def gpdt_Inr
           split: option.splits sum.splits prod.splits)

lemma derive_programme_logger:
  "derive_programme env m mio s = Inr (p, s1) \<Longrightarrow> set (LOGGER s) \<subseteq> set (LOGGER s1)"
  "derive_programme env m mio s = Inl (e, s1) \<Longrightarrow> set (LOGGER s) \<subseteq> set (LOGGER s1)"
  by (auto simp: derive_programme_def dest: with_media_info_logger
           split: option.splits sum.splits prod.splits)

lemma adapt_loop_total:
  assumes "\<forall>m\<in>set ms. \<forall>e. programme_outcome env (all_episodes st) m = Inl e
             \<longrightarrow> e = AttributeError"
  shows "\<exists>st'. adapt_loop env ms st = Inr st' \<and>
     TV_programme st' = TV_programme st @
       concat (map (\<lambda>m. case programme_outcome env (all_episodes st) m of
                           Inr p \<Rightarrow> [p] | Inl e \<Rightarrow> []) ms) \<and>
     all_episodes st' = all_episodes st \<and>
     MEDIA_GUIDE_OBJECT st' = MEDIA_GUIDE_OBJECT st \<and>
     set (LOGGER st) \<subseteq> set (LOGGER st') \<and>
     (\<forall>m\<in>set ms. programme_outcome env (all_episodes st) m = Inl AttributeError \<longrightarrow>
        (ERROR,
         ''Unable to add element: '' @ [CHR 0x0A, CHR 0x09] @ '' --Element: {} ''
           @ [CHR 0x0A, CHR 0x09] @ '' --Info Element: {} ''
           @ [CHR 0x0A, CHR 0x09] @ '' --Reason: {}.'',
         [LMedia m,
          LInfo (find (\<lambda>element. mi_queryUrl element = queryUrl m) (all_episodes st)),
          LErr AttributeError]) \<in> set (LOGGER st'))"
  using assms
proof (induction ms arbitrary: st)
  case Nil
  then show ?case by simp
next
  case (Cons m ms)
  let ?cache = "all_episodes st"
  let ?mio = "find (\<lambda>element. mi_queryUrl element = queryUrl m) ?cache"
  let ?st1 = "case ?mio of None \<Rightarrow> st
     | Some element \<Rightarrow> log_call DEBUG
         ''Found the corresponding mediaInfo object for the media_object with a url of {}.''
         [LOpt (queryUrl m)] st"
  let ?msg = "''Unable to add element: '' @ [CHR 0x0A, CHR 0x09] @ '' --Element: {} ''
           @ [CHR 0x0A, CHR 0x09] @ '' --Info Element: {} ''
           @ [CHR 0x0A, CHR 0x09] @ '' --Reason: {}.''"
  let ?rec = "\<lambda>x. (ERROR, ?msg,
      [LMedia x, LInfo (find (\<lambda>element. mi_queryUrl element = queryUrl x) ?cache),
       LErr AttributeError])"
  let ?out = "\<lambda>x. case programme_outcome env ?cache x of Inr p \<Rightarrow> [p] | Inl e \<Rightarrow> []"
  have f1: "MEDIA_GUIDE_OBJECT ?st1 = MEDIA_GUIDE_OBJECT st" "all_episodes ?st1 = ?cache"
    "TV_programme ?st1 = TV_programme st" "set (LOGGER st) \<subseteq> set (LOGGER ?st1)"
    by (auto split: option.splits)
  have o: "map_sum fst fst (derive_programme env m ?mio ?st1) = programme_outcome env ?cache m"
    using f1(2) by (rule programme_outcome_eq)
  have rest: "\<forall>x\<in>set ms. \<forall>e. programme_outcome env ?cache x = Inl e \<longrightarrow> e = AttributeError"
    using Cons.prems by simp
  show ?case
  proof (cases "derive_programme env m ?mio ?st1")
    case (Inr r)
    obtain p st2 where r: "r = (p, st2)" by (cases r)
    note d = derive_programme_Inr [OF Inr [unfolded r]]
    note dl = derive_programme_logger(1) [OF Inr [unfolded r]]
    have om: "programme_outcome env ?cache m = Inr p"
      using o Inr r by simp
    let ?s = "st2\<lparr>TV_programme := TV_programme st2 @ [p]\<rparr>"
    have c: "all_episodes ?s = ?cache"
      using d(2) f1(2) by simp
    from Cons.IH [of ?s] rest c obtain st' where
      k: "adapt_loop env ms ?s = Inr st'"
        "TV_programme st' = TV_programme ?s @ concat (map ?out ms)"
        "all_episodes st' = ?cache" "MEDIA_GUIDE_OBJECT st' = MEDIA_GUIDE_OBJECT ?s"
        "set (LOGGER ?s) \<subseteq> set (LOGGER st')"
        "\<forall>x\<in>set ms. programme_outcome env ?cache x = Inl AttributeError \<longrightarrow>
           ?rec x \<in> set (LOGGER st')"
      by auto
    have 1: "adapt_loop env (m # ms) st = Inr st'"
      using k(1) Inr r by (simp add: Let_def)
    have 2: "TV_programme st' = TV_programme st @ concat (map ?out (m # ms))"
      using k(2) d(3) f1(3) om by simp
    have 3: "MEDIA_GUIDE_OBJECT st' = MEDIA_GUIDE_OBJECT st"
      using k(4) d(1) f1(1) by simp
    have 4: "set (LOGGER st) \<subseteq> set (LOGGER st')"
      using k(5) dl f1(4) by auto
    have 5: "\<forall>x\<in>set (m # ms). programme_outcome env ?cache x = Inl AttributeError \<longrightarrow>
           ?rec x \<in> set (LOGGER st')"
      using k(6) om by simp
    show ?thesis
      by (intro exI [of _ st'] conjI) (fact 1 2 k(3) 3 4 5)+
  next
    case (Inl x)
    obtain e st2 where x: "x = (e, st2)" by (cases x)
    note d = derive_programme_Inl [OF Inl [unfolded x]]
    note dl = derive_programme_logger(2) [OF Inl [unfolded x]]
    have om: "programme_outcome env ?cache m = Inl e"
      using o Inl x by simp
    then have e: "e = AttributeError"
      using Cons.prems by simp
    let ?s = "log_call ERROR ?msg [LMedia m, LInfo ?mio, LErr e] st2"
    have c: "all_episodes ?s = ?cache"
      using d(2) f1(2) by simp
    from Cons.IH [of ?s] rest c obtain st' where
      k: "adapt_loop env ms ?s = Inr st'"
        "TV_programme st' = TV_programme ?s @ concat (map ?out ms)"
        "all_episodes st' = ?cache" "MEDIA_GUIDE_OBJECT st' = MEDIA_GUIDE_OBJECT ?s"
        "set (LOGGER ?s) \<subseteq> set (LOGGER st')"
        "\<forall>x\<in>set ms. programme_outcome env ?cache x = Inl AttributeError \<longrightarrow>
           ?rec x \<in> set (LOGGER st')"
      by auto
    have 1: "adapt_loop env (m # ms) st = Inr st'"
      using k(1) Inl x e by (simp add: Let_def)
    have 2: "TV_programme st' = TV_programme st @ concat (map ?out (m # ms))"
      using k(2) d(3) f1(3) om by simp
    have 3: "MEDIA_GUIDE_OBJECT st' = MEDIA_GUIDE_OBJECT st"
      using k(4) d(1) f1(1) by simp
    have 4: "set (LOGGER st) \<subseteq> set (LOGGER st')"
      using k(5) dl f1(4) by auto
    have "?rec m \<in> set (LOGGER ?s)"
      using e by simp
    then have "?rec m \<in> set (LOGGER st')"
      using k(5) by blast
    then have 5: "\<forall>x\<in>set (m # ms). programme_outcome env ?cache x = Inl AttributeError \<longrightarrow>
           ?rec x \<in> set (LOGGER st')"
      using k(6) by simp
    show ?thesis
      by (intro exI [of _ st'] conjI) (fact 1 2 k(3) 3 4 5)+
  qed
qed

section \<open>The string converter\<close>

text \<open>
  C7. A string decoded from a metadata response that is one of the four excluded
  literals decodes to \<open>None\<close>; every other string decodes to itself.
\<close>

theorem deserialize_denylist:
  "(s \<in> {''a.k.a. Cartoon'', ''IMDbPro'', ''See full cast & crew'', ''See more''}
      \<longrightarrow> deserialize (PyStr s) = None) \<and>
   (s \<notin> {''a.k.a. Cartoon'', ''IMDbPro'', ''See full cast & crew'', ''See more''}
      \<longrightarrow> deserialize (PyStr s) = Some s)"
  by (simp add: EXCLUDED_STRINGS_def)

theorem deserialize_denylist_witness:
  "''IMDbPro'' \<in> {''a.k.a. Cartoon'', ''IMDbPro'', ''See full cast & crew'', ''See more''} \<and>
   deserialize (PyStr ''IMDbPro'') = None \<and>
   ''Dragon Ball Z'' \<notin> {''a.k.a. Cartoon'', ''IMDbPro'', ''See full cast & crew'', ''See more''} \<and>
   deserialize (PyStr ''Dragon Ball Z'') = Some ''Dragon Ball Z''"
  using deserialize_denylist [of "''IMDbPro''"] deserialize_denylist [of "''Dragon Ball Z''"]
  by simp

text \<open>
  C9. A value that is not a string decodes to \<open>None\<close>: it is neither converted nor
  reported as an error.
\<close>

theorem deserialize_non_string: "\<not> isinstance_str v \<Longrightarrow> deserialize v = None"
  by (cases v) simp_all

theorem deserialize_non_string_witness:
  "\<not> isinstance_str (PyInt 42) \<and> deserialize (PyInt 42) = None \<and>
   \<not> isinstance_str (PyList [PyStr ''IMDbPro'']) \<and>
   deserialize (PyList [PyStr ''IMDbPro'']) = None"
  using deserialize_non_string [of "PyInt 42"]
    deserialize_non_string [of "PyList [PyStr ''IMDbPro'']"]
  by simp

section \<open>Normalization of a schedule\<close>

text \<open>
  C1. For a channel with a schedule URL whose fetched schedule has \<open>n\<close> entries, and a
  call of \<open>get_media\<close> that returns: the call appends \<open>n\<close> elements; for every
  \<open>i < n - 1\<close> the stop time of element \<open>i\<close> is what the reformatter makes of the start
  time of entry \<open>i + 1\<close> followed by the channel's offset, which is also the start time of
  element \<open>i + 1\<close> when that entry has a title; the last element has no stop time.
\<close>

theorem stop_is_next_start:
  assumes "scheduleUrl ch = Some u"
    and "get_json_obj_from_url env (getScheduleUrl env ch (GUIDE_ITEMS_PER_CHANNEL env)) st
           = Inr (Some js, st1)"
    and "parse_media_root env js = Inr raws"
    and "get_media env ch st = Inr st'"
  shows "\<exists>out. MEDIA_GUIDE_OBJECT st' = MEDIA_GUIDE_OBJECT st @ out \<and>
     length out = length raws \<and>
     (\<forall>i. i + 1 < length raws \<longrightarrow>
        proper_date_time env
          (DateStr (py_str (raw_startDate (raws ! (i + 1))) @ offset ch)) NEW_DATE_FORMAT
          = Inr (stopDate (out ! i)) \<and>
        (raw_name (raws ! (i + 1)) \<noteq> None \<or> raw_blockName (raws ! (i + 1)) \<noteq> None
           \<longrightarrow> stopDate (out ! i) = startDate (out ! (i + 1)))) \<and>
     (raws \<noteq> [] \<longrightarrow> stopDate (last out) = None)"
proof -
  from get_media_schedule_out [OF assms] obtain out where
    out: "MEDIA_GUIDE_OBJECT st' = MEDIA_GUIDE_OBJECT st @ out" "length out = length raws"
      and n: "\<forall>i<length raws.
        normalized_at env ch (map from_raw raws) i (from_raw (raws ! i)) (out ! i)"
    by blast
  have stop: "proper_date_time env
          (DateStr (py_str (raw_startDate (raws ! (i + 1))) @ offset ch)) NEW_DATE_FORMAT
          = Inr (stopDate (out ! i))" if "i + 1 < length raws" for i
  proof -
    have "normalized_at env ch (map from_raw raws) i (from_raw (raws ! i)) (out ! i)"
      using n that by simp
    then show ?thesis using that by (simp add: normalized_at_def)
  qed
  have start: "proper_date_time env
          (DateStr (py_str (raw_startDate (raws ! i)) @ offset ch)) NEW_DATE_FORMAT
          = Inr (startDate (out ! i))"
    if "i < length raws" "raw_name (raws ! i) \<noteq> None \<or> raw_blockName (raws ! i) \<noteq> None" for i
  proof -
    have "normalized_at env ch (map from_raw raws) i (from_raw (raws ! i)) (out ! i)"
      using n that by simp
    then show ?thesis using that
      by (auto simp: normalized_at_def split: if_splits option.splits)
  qed
  have last: "stopDate (last out) = None" if "raws \<noteq> []"
  proof -
    let ?k = "length raws - 1"
    have k: "?k < length raws" using that by simp
    have "normalized_at env ch (map from_raw raws) ?k (from_raw (raws ! ?k)) (out ! ?k)"
      using n k by blast
    then have "stopDate (out ! ?k) = None"
      using k by (simp add: normalized_at_def)
    moreover have "out \<noteq> []"
      using that out(2) by auto
    then have "last out = out ! ?k"
      using out(2) by (simp add: last_conv_nth)
    ultimately show ?thesis by simp
  qed
  show ?thesis
  proof (intro exI [of _ out] conjI allI impI)
    fix i assume "i + 1 < length raws"
    then show "proper_date_time env
          (DateStr (py_str (raw_startDate (raws ! (i + 1))) @ offset ch)) NEW_DATE_FORMAT
          = Inr (stopDate (out ! i))" by (rule stop)
  next
    fix i assume a: "i + 1 < length raws"
      "raw_name (raws ! (i + 1)) \<noteq> None \<or> raw_blockName (raws ! (i + 1)) \<noteq> None"
    from stop [OF a(1)] start [OF a] show "stopDate (out ! i) = startDate (out ! (i + 1))"
      by simp
  qed (use out last in simp_all)
qed


theorem stop_is_next_start_witness:
  "\<exists>js st1 st'.
     scheduleUrl sample_channel = Some ''sched'' \<and>
     get_json_obj_from_url sample_env
       (getScheduleUrl sample_env sample_channel (GUIDE_ITEMS_PER_CHANNEL sample_env))
       empty_state = Inr (Some js, st1) \<and>
     parse_media_root sample_env js = Inr sample_schedule \<and>
     get_media sample_env sample_channel empty_state = Inr st' \<and>
     (\<exists>out. MEDIA_GUIDE_OBJECT st' = MEDIA_GUIDE_OBJECT empty_state @ out \<and>
        length out = length sample_schedule \<and>
        (\<forall>i. i + 1 < length sample_schedule \<longrightarrow>
           proper_date_time sample_env
             (DateStr (py_str (raw_startDate (sample_schedule ! (i + 1)))
                       @ offset sample_channel)) NEW_DATE_FORMAT
             = Inr (stopDate (out ! i)) \<and>
           (raw_name (sample_schedule ! (i + 1)) \<noteq> None \<or>
            raw_blockName (sample_schedule ! (i + 1)) \<noteq> None
              \<longrightarrow> stopDate (out ! i) = startDate (out ! (i + 1)))) \<and>
        (sample_schedule \<noteq> [] \<longrightarrow> stopDate (last out) = None)) \<and>
     map startDate (MEDIA_GUIDE_OBJECT st') =
       [Some ''20240101120000 -0500'', Some ''20240101130000 -0500'', Some ''20240101140000''] \<and>
     map stopDate (MEDIA_GUIDE_OBJECT st') =
       [Some ''20240101130000 -0500'', Some ''20240101140000 -0500'', None]"
proof -
  have u: "scheduleUrl sample_channel = Some ''sched''"
    by (simp add: sample_channel_def)
  have "case get_json_obj_from_url sample_env
       (getScheduleUrl sample_env sample_channel (GUIDE_ITEMS_PER_CHANNEL sample_env))
       empty_state of Inr (Some js, st1) \<Rightarrow> parse_media_root sample_env js = Inr sample_schedule
          | _ \<Rightarrow> False"
    by code_simp
  then obtain js st1 where
    j: "get_json_obj_from_url sample_env
       (getScheduleUrl sample_env sample_channel (GUIDE_ITEMS_PER_CHANNEL sample_env))
       empty_state = Inr (Some js, st1)"
    and p: "parse_media_root sample_env js = Inr sample_schedule"
    by (auto split: sum.splits prod.splits option.splits)
  have "map_sum id (\<lambda>s. (map startDate (MEDIA_GUIDE_OBJECT s), map stopDate (MEDIA_GUIDE_OBJECT s)))
          (get_media sample_env sample_channel empty_state) =
        Inr ([Some ''20240101120000 -0500'', Some ''20240101130000 -0500'',
              Some ''20240101140000''],
             [Some ''20240101130000 -0500'', Some ''20240101140000 -0500'', None])"
    by code_simp
  then obtain st' where g: "get_media sample_env sample_channel empty_state = Inr st'"
    and v: "map startDate (MEDIA_GUIDE_OBJECT st') =
       [Some ''20240101120000 -0500'', Some ''20240101130000 -0500'', Some ''20240101140000'']"
      "map stopDate (MEDIA_GUIDE_OBJECT st') =
       [Some ''20240101130000 -0500'', Some ''20240101140000 -0500'', None]"
    by (cases "get_media sample_env sample_channel empty_state") auto
  note c = stop_is_next_start [OF u j p g]
  show ?thesis
    by (intro exI [of _ js] exI [of _ st1] exI [of _ st'] conjI) (fact u j p g c v)+
qed

text \<open>
  C8. The title of a schedule entry is its \<open>name\<close> when present, otherwise its
  \<open>blockName\<close>. An entry with neither keeps no title and gets no query URL; the
  iteration for it opens no URL and leaves the episode cache as it was, and the entry is
  appended to the programme stream all the same.
\<close>

theorem title_resolution:
  assumes "scheduleUrl ch = Some u"
    and "get_json_obj_from_url env (getScheduleUrl env ch (GUIDE_ITEMS_PER_CHANNEL env)) st
           = Inr (Some js, st1)"
    and "parse_media_root env js = Inr raws"
    and "get_media env ch st = Inr st'"
  shows "(\<exists>out. MEDIA_GUIDE_OBJECT st' = MEDIA_GUIDE_OBJECT st @ out \<and>
       length out = length raws \<and>
       (\<forall>i<length raws.
          name (out ! i) =
            (case raw_name (raws ! i) of Some n \<Rightarrow> Some n | None \<Rightarrow> raw_blockName (raws ! i)) \<and>
          (raw_name (raws ! i) = None \<and> raw_blockName (raws ! i) = None
             \<longrightarrow> name (out ! i) = None \<and> queryUrl (out ! i) = None))) \<and>
     (name m = None \<and> blockName m = None \<and> media_loop_body env ch els pos m s = Inr s'
        \<longrightarrow> all_episodes s' = all_episodes s \<and> fetched s' = fetched s \<and>
            (\<exists>m'. MEDIA_GUIDE_OBJECT s' = MEDIA_GUIDE_OBJECT s @ [m'] \<and>
                  name m' = None \<and> queryUrl m' = queryUrl m))"
proof (intro conjI impI)
  from get_media_schedule_out [OF assms] obtain out where
    out: "MEDIA_GUIDE_OBJECT st' = MEDIA_GUIDE_OBJECT st @ out" "length out = length raws"
      and n: "\<forall>i<length raws.
        normalized_at env ch (map from_raw raws) i (from_raw (raws ! i)) (out ! i)"
    by blast
  have "name (out ! i) =
            (case raw_name (raws ! i) of Some n \<Rightarrow> Some n | None \<Rightarrow> raw_blockName (raws ! i)) \<and>
          (raw_name (raws ! i) = None \<and> raw_blockName (raws ! i) = None
             \<longrightarrow> name (out ! i) = None \<and> queryUrl (out ! i) = None)"
    if "i < length raws" for i
  proof -
    have "normalized_at env ch (map from_raw raws) i (from_raw (raws ! i)) (out ! i)"
      using n that by simp
    then show ?thesis
      by (auto simp: normalized_at_def split: option.splits if_splits)
  qed
  with out show "\<exists>out. MEDIA_GUIDE_OBJECT st' = MEDIA_GUIDE_OBJECT st @ out \<and>
       length out = length raws \<and>
       (\<forall>i<length raws.
          name (out ! i) =
            (case raw_name (raws ! i) of Some n \<Rightarrow> Some n | None \<Rightarrow> raw_blockName (raws ! i)) \<and>
          (raw_name (raws ! i) = None \<and> raw_blockName (raws ! i) = None
             \<longrightarrow> name (out ! i) = None \<and> queryUrl (out ! i) = None))"
    by (intro exI [of _ out]) simp
next
  assume a: "name m = None \<and> blockName m = None \<and> media_loop_body env ch els pos m s = Inr s'"
  then have a': "name m = None" "blockName m = None"
    "media_loop_body env ch els pos m s = Inr s'"
    by simp_all
  from media_loop_body_untitled [OF a'] obtain m' where
    m': "MEDIA_GUIDE_OBJECT s' = MEDIA_GUIDE_OBJECT s @ [m']" "m' = m\<lparr>stopDate := stopDate m'\<rparr>"
      "all_episodes s' = all_episodes s" "fetched s' = fetched s"
    by (elim exE conjE) (rule that, assumption+)
  have "name m' = name m" "queryUrl m' = queryUrl m"
    by (subst m'(2), simp)+
  then have "name m' = None" "queryUrl m' = queryUrl m"
    using a'(1) by simp_all
  with m'(1) have "\<exists>m'. MEDIA_GUIDE_OBJECT s' = MEDIA_GUIDE_OBJECT s @ [m'] \<and>
      name m' = None \<and> queryUrl m' = queryUrl m"
    by (intro exI [of _ m']) simp
  with m'(3,4) show "all_episodes s' = all_episodes s" "fetched s' = fetched s"
    "\<exists>m'. MEDIA_GUIDE_OBJECT s' = MEDIA_GUIDE_OBJECT s @ [m'] \<and> name m' = None \<and> queryUrl m' = queryUrl m"
    by simp_all
qed


theorem title_resolution_witness:
  "\<exists>js st1 st' s'.
     scheduleUrl sample_channel = Some ''sched'' \<and>
     get_json_obj_from_url sample_env
       (getScheduleUrl sample_env sample_channel (GUIDE_ITEMS_PER_CHANNEL sample_env))
       empty_state = Inr (Some js, st1) \<and>
     parse_media_root sample_env js = Inr sample_schedule \<and>
     get_media sample_env sample_channel empty_state = Inr st' \<and>
     name (from_raw (sample_entry (Some ''20240101140000'') None None)) = None \<and>
     blockName (from_raw (sample_entry (Some ''20240101140000'') None None)) = None \<and>
     media_loop_body sample_env sample_channel
       [from_raw (sample_entry (Some ''20240101140000'') None None)] 0
       (from_raw (sample_entry (Some ''20240101140000'') None None)) empty_state = Inr s' \<and>
     (\<exists>out. MEDIA_GUIDE_OBJECT st' = MEDIA_GUIDE_OBJECT empty_state @ out \<and>
        length out = length sample_schedule \<and>
        (\<forall>i<length sample_schedule.
           name (out ! i) =
             (case raw_name (sample_schedule ! i) of
                Some n \<Rightarrow> Some n | None \<Rightarrow> raw_blockName (sample_schedule ! i)) \<and>
           (raw_name (sample_schedule ! i) = None \<and> raw_blockName (sample_schedule ! i) = None
              \<longrightarrow> name (out ! i) = None \<and> queryUrl (out ! i) = None))) \<and>
     all_episodes s' = all_episodes empty_state \<and> fetched s' = fetched empty_state \<and>
     (\<exists>m'. MEDIA_GUIDE_OBJECT s' = MEDIA_GUIDE_OBJECT empty_state @ [m'] \<and> name m' = None \<and>
        queryUrl m' = queryUrl (from_raw (sample_entry (Some ''20240101140000'') None None))) \<and>
     map name (MEDIA_GUIDE_OBJECT st') = [Some ''Show A'', Some ''Block B'', None] \<and>
     map queryUrl (MEDIA_GUIDE_OBJECT st') =
       [Some ''q?name=Show%20A'', Some ''q?name=Block%20B'', None]"
proof -
  let ?m = "from_raw (sample_entry (Some ''20240101140000'') None None)"
  have u: "scheduleUrl sample_channel = Some ''sched''"
    by (simp add: sample_channel_def)
  have "case get_json_obj_from_url sample_env
       (getScheduleUrl sample_env sample_channel (GUIDE_ITEMS_PER_CHANNEL sample_env))
       empty_state of Inr (Some js, st1) \<Rightarrow> parse_media_root sample_env js = Inr sample_schedule
          | _ \<Rightarrow> False"
    by code_simp
  then obtain js st1 where
    j: "get_json_obj_from_url sample_env
       (getScheduleUrl sample_env sample_channel (GUIDE_ITEMS_PER_CHANNEL sample_env))
       empty_state = Inr (Some js, st1)"
    and p: "parse_media_root sample_env js = Inr sample_schedule"
    by (auto split: sum.splits prod.splits option.splits)
  have "map_sum id (\<lambda>s. (map name (MEDIA_GUIDE_OBJECT s), map queryUrl (MEDIA_GUIDE_OBJECT s)))
          (get_media sample_env sample_channel empty_state) =
        Inr ([Some ''Show A'', Some ''Block B'', None],
             [Some ''q?name=Show%20A'', Some ''q?name=Block%20B'', None])"
    by code_simp
  then obtain st' where g: "get_media sample_env sample_channel empty_state = Inr st'"
    and v: "map name (MEDIA_GUIDE_OBJECT st') = [Some ''Show A'', Some ''Block B'', None]"
      "map queryUrl (MEDIA_GUIDE_OBJECT st') =
         [Some ''q?name=Show%20A'', Some ''q?name=Block%20B'', None]"
    by (cases "get_media sample_env sample_channel empty_state") auto
  have n: "name ?m = None" "blockName ?m = None"
    by (simp_all add: sample_entry_def)
  have "case media_loop_body sample_env sample_channel [?m] 0 ?m empty_state of
          Inr s \<Rightarrow> True | Inl e \<Rightarrow> False"
    by code_simp
  then obtain s' where
    b: "media_loop_body sample_env sample_channel [?m] 0 ?m empty_state = Inr s'"
    by (auto split: sum.splits)
  note t = title_resolution [OF u j p g, of ?m "[?m]" 0 empty_state s']
  note c1 = t [THEN conjunct1]
  from t n b have c2: "all_episodes s' = all_episodes empty_state"
    "fetched s' = fetched empty_state"
    "\<exists>m'. MEDIA_GUIDE_OBJECT s' = MEDIA_GUIDE_OBJECT empty_state @ [m'] \<and> name m' = None \<and>
        queryUrl m' = queryUrl ?m"
    by blast+
  show ?thesis
    by (intro exI [of _ js] exI [of _ st1] exI [of _ st'] exI [of _ s'] conjI)
       (fact u j p g n b c1 c2 v)+
qed

section \<open>The episode cache\<close>

text \<open>
  C3. When the cache already has an entry for a key, \<open>get_media_info\<close> for that key
  returns without opening a URL and with the cache as it was. Within a run an entry is
  never overwritten or evicted: the cache before a call of \<open>get_media_info\<close>, and before
  the whole of \<open>main\<close>, is a prefix of the cache after it.
\<close>

theorem enrichment_idempotent:
  "(list_ex (\<lambda>element. mi_queryUrl element = Some key) (all_episodes st) \<longrightarrow>
      (\<exists>st'. get_media_info env key st = Inr st' \<and> fetched st' = fetched st \<and>
             all_episodes st' = all_episodes st)) \<and>
   (get_media_info env key st = Inr st1 \<longrightarrow> prefix (all_episodes st) (all_episodes st1)) \<and>
   (main env CHANNELS st = Inr st2 \<longrightarrow> prefix (all_episodes st) (all_episodes st2))"
proof (intro conjI impI)
  assume "list_ex (\<lambda>element. mi_queryUrl element = Some key) (all_episodes st)"
  from get_media_info_hit [OF this, of env]
  show "\<exists>st'. get_media_info env key st = Inr st' \<and> fetched st' = fetched st \<and>
             all_episodes st' = all_episodes st"
    by simp
next
  assume "get_media_info env key st = Inr st1"
  then show "prefix (all_episodes st) (all_episodes st1)"
    by (rule get_media_info_frame)
next
  assume "main env CHANNELS st = Inr st2"
  then show "prefix (all_episodes st) (all_episodes st2)"
    by (rule main_frame)
qed

theorem enrichment_idempotent_witness:
  "\<exists>st1 st2.
     list_ex (\<lambda>element. mi_queryUrl element = Some ''q?name=Show%20A'')
       (all_episodes cached_state) \<and>
     get_media_info sample_env ''q?name=Show%20A'' cached_state = Inr st1 \<and>
     fetched st1 = fetched cached_state \<and> all_episodes st1 = all_episodes cached_state \<and>
     prefix (all_episodes cached_state) (all_episodes st1) \<and>
     main sample_env [sample_channel] cached_state = Inr st2 \<and>
     prefix (all_episodes cached_state) (all_episodes st2) \<and>
     fetched st2 = [''sched'', ''q?name=Block%20B''] \<and>
     map mi_queryUrl (all_episodes st2) = [Some ''q?name=Show%20A'', Some ''q?name=Block%20B'']"
proof -
  have h: "list_ex (\<lambda>element. mi_queryUrl element = Some ''q?name=Show%20A'')
       (all_episodes cached_state)"
    by code_simp
  note t = enrichment_idempotent [of "''q?name=Show%20A''" cached_state sample_env]
  from t h obtain st1 where
    i: "get_media_info sample_env ''q?name=Show%20A'' cached_state = Inr st1"
      "fetched st1 = fetched cached_state" "all_episodes st1 = all_episodes cached_state"
    by blast
  have "map_sum id (\<lambda>s. (fetched s, map mi_queryUrl (all_episodes s)))
          (main sample_env [sample_channel] cached_state) =
        Inr ([''sched'', ''q?name=Block%20B''],
             [Some ''q?name=Show%20A'', Some ''q?name=Block%20B''])"
    by code_simp
  then obtain st2 where
    m: "main sample_env [sample_channel] cached_state = Inr st2"
    and v: "fetched st2 = [''sched'', ''q?name=Block%20B'']"
      "map mi_queryUrl (all_episodes st2) = [Some ''q?name=Show%20A'', Some ''q?name=Block%20B'']"
    by (cases "main sample_env [sample_channel] cached_state") auto
  from t i(1) have p1: "prefix (all_episodes cached_state) (all_episodes st1)"
    by blast
  from enrichment_idempotent [of "''q?name=Show%20A''" cached_state sample_env st1
      "[sample_channel]" st2] m
  have p2: "prefix (all_episodes cached_state) (all_episodes st2)"
    by blast
  show ?thesis
    by (intro exI [of _ st1] exI [of _ st2] conjI) (fact h i p1 m p2 v)+
qed

section \<open>Guide assembly\<close>

text \<open>
  C6, as the code has it. The \<open>try\<close> around the building of one programme catches
  \<open>AttributeError\<close> only, which is what reading the list of an absent \<open>genres\<close>,
  \<open>productionCo\<close> or \<open>creators\<close> wrapper raises. When no media object of the stream
  fails in another way, assembly returns: the programme list has grown by the programmes
  of the media objects that did not fail, in the order of the stream; for each one that
  failed an error naming the media object and its metadata has been logged; the cache
  and the stream are as before. Assembly never ends in \<open>AttributeError\<close>.
\<close>

theorem attribute_error_is_caught:
  "((\<forall>m\<in>set (MEDIA_GUIDE_OBJECT st).
       \<forall>e. programme_outcome env (all_episodes st) m = Inl e \<longrightarrow> e = AttributeError) \<longrightarrow>
    (\<exists>st'. adapt_media_objects_to_xmltv_object env st = Inr st' \<and>
       TV_programme st' = TV_programme st @
         concat (map (\<lambda>m. case programme_outcome env (all_episodes st) m of
                             Inr p \<Rightarrow> [p] | Inl e \<Rightarrow> [])
                   (MEDIA_GUIDE_OBJECT st)) \<and>
       all_episodes st' = all_episodes st \<and>
       MEDIA_GUIDE_OBJECT st' = MEDIA_GUIDE_OBJECT st \<and>
       (\<forall>m\<in>set (MEDIA_GUIDE_OBJECT st).
          programme_outcome env (all_episodes st) m = Inl AttributeError \<longrightarrow>
          (ERROR,
           ''Unable to add element: '' @ [CHR 0x0A, CHR 0x09] @ '' --Element: {} ''
             @ [CHR 0x0A, CHR 0x09] @ '' --Info Element: {} ''
             @ [CHR 0x0A, CHR 0x09] @ '' --Reason: {}.'',
           [LMedia m,
            LInfo (find (\<lambda>element. mi_queryUrl element = queryUrl m) (all_episodes st)),
            LErr AttributeError]) \<in> set (LOGGER st')))) \<and>
   adapt_media_objects_to_xmltv_object env st \<noteq> Inl AttributeError \<and>
   (find (\<lambda>element. mi_queryUrl element = queryUrl x) cache = Some mi \<and>
    (genres mi = None \<or> productionCo mi = None \<or> creators mi = None)
      \<longrightarrow> programme_outcome env cache x = Inl AttributeError)"
proof (intro conjI impI)
  let ?l = "log_call DEBUG ''Going to adapt media objects into xmltv objects.'' [] st"
  assume "\<forall>m\<in>set (MEDIA_GUIDE_OBJECT st).
       \<forall>e. programme_outcome env (all_episodes st) m = Inl e \<longrightarrow> e = AttributeError"
  then have "\<forall>m\<in>set (MEDIA_GUIDE_OBJECT st).
       \<forall>e. programme_outcome env (all_episodes ?l) m = Inl e \<longrightarrow> e = AttributeError"
    by simp
  from adapt_loop_total [OF this]
  show "\<exists>st'. adapt_media_objects_to_xmltv_object env st = Inr st' \<and>
       TV_programme st' = TV_programme st @
         concat (map (\<lambda>m. case programme_outcome env (all_episodes st) m of
                             Inr p \<Rightarrow> [p] | Inl e \<Rightarrow> [])
                   (MEDIA_GUIDE_OBJECT st)) \<and>
       all_episodes st' = all_episodes st \<and>
       MEDIA_GUIDE_OBJECT st' = MEDIA_GUIDE_OBJECT st \<and>
       (\<forall>m\<in>set (MEDIA_GUIDE_OBJECT st).
          programme_outcome env (all_episodes st) m = Inl AttributeError \<longrightarrow>
          (ERROR,
           ''Unable to add element: '' @ [CHR 0x0A, CHR 0x09] @ '' --Element: {} ''
             @ [CHR 0x0A, CHR 0x09] @ '' --Info Element: {} ''
             @ [CHR 0x0A, CHR 0x09] @ '' --Reason: {}.'',
           [LMedia m,
            LInfo (find (\<lambda>element. mi_queryUrl element = queryUrl m) (all_episodes st)),
            LErr AttributeError]) \<in> set (LOGGER st'))"
    unfolding adapt_media_objects_to_xmltv_object_def
    by (elim exE conjE, intro exI conjI) simp_all
next
  show "adapt_media_objects_to_xmltv_object env st \<noteq> Inl AttributeError"
    by (simp add: adapt_media_objects_to_xmltv_object_def adapt_loop_not_AttributeError)
next
  assume "find (\<lambda>element. mi_queryUrl element = queryUrl x) cache = Some mi \<and>
    (genres mi = None \<or> productionCo mi = None \<or> creators mi = None)"
  then show "programme_outcome env cache x = Inl AttributeError"
    by (auto simp: programme_outcome_def derive_programme_def with_media_info_def
             split: option.splits)
qed

theorem attribute_error_is_caught_witness:
  "MEDIA_GUIDE_OBJECT assembly_state = [block_element, untitled_element] \<and>
   find (\<lambda>element. mi_queryUrl element = queryUrl block_element) (all_episodes assembly_state)
     = Some ((sample_info None)\<lparr>mi_queryUrl := Some ''q?name=Block%20B''\<rparr>) \<and>
   genres ((sample_info None)\<lparr>mi_queryUrl := Some ''q?name=Block%20B''\<rparr>) = None \<and>
   programme_outcome sample_env (all_episodes assembly_state) block_element
     = Inl AttributeError \<and>
   programme_outcome sample_env (all_episodes assembly_state) untitled_element
     = Inr (plain_programme untitled_element) \<and>
   (\<exists>st'. adapt_media_objects_to_xmltv_object sample_env assembly_state = Inr st' \<and>
      TV_programme st' = [plain_programme untitled_element] \<and>
      all_episodes st' = all_episodes assembly_state \<and>
      (ERROR,
       ''Unable to add element: '' @ [CHR 0x0A, CHR 0x09] @ '' --Element: {} ''
         @ [CHR 0x0A, CHR 0x09] @ '' --Info Element: {} ''
         @ [CHR 0x0A, CHR 0x09] @ '' --Reason: {}.'',
       [LMedia block_element,
        LInfo (find (\<lambda>element. mi_queryUrl element = queryUrl block_element)
                 (all_episodes assembly_state)),
        LErr AttributeError]) \<in> set (LOGGER st')) \<and>
   adapt_media_objects_to_xmltv_object sample_env assembly_state \<noteq> Inl AttributeError"
proof -
  let ?mi = "(sample_info None)\<lparr>mi_queryUrl := Some ''q?name=Block%20B''\<rparr>"
  let ?cache = "all_episodes assembly_state"
  have g: "MEDIA_GUIDE_OBJECT assembly_state = [block_element, untitled_element]"
    by (simp add: assembly_state_def)
  have tv: "TV_programme assembly_state = []"
    by (simp add: assembly_state_def no_genres_state_def empty_state_def)
  have f: "find (\<lambda>element. mi_queryUrl element = queryUrl block_element) ?cache = Some ?mi"
    by code_simp
  have n: "genres ?mi = None"
    by (simp add: sample_info_def)
  have o2: "programme_outcome sample_env ?cache untitled_element
      = Inr (plain_programme untitled_element)"
    by code_simp
  note t = attribute_error_is_caught [of assembly_state sample_env block_element ?cache ?mi]
  from t f n have o1: "programme_outcome sample_env ?cache block_element = Inl AttributeError"
    by blast
  have h: "\<forall>m\<in>set (MEDIA_GUIDE_OBJECT assembly_state).
       \<forall>e. programme_outcome sample_env ?cache m = Inl e \<longrightarrow> e = AttributeError"
    using g o1 o2 by simp
  from t [THEN conjunct1, THEN mp, OF h] obtain st' where
    r: "adapt_media_objects_to_xmltv_object sample_env assembly_state = Inr st'"
      "TV_programme st' = TV_programme assembly_state @
         concat (map (\<lambda>m. case programme_outcome sample_env ?cache m of
                             Inr p \<Rightarrow> [p] | Inl e \<Rightarrow> [])
                   (MEDIA_GUIDE_OBJECT assembly_state))"
      "all_episodes st' = ?cache"
      "\<forall>m\<in>set (MEDIA_GUIDE_OBJECT assembly_state).
          programme_outcome sample_env ?cache m = Inl AttributeError \<longrightarrow>
          (ERROR,
           ''Unable to add element: '' @ [CHR 0x0A, CHR 0x09] @ '' --Element: {} ''
             @ [CHR 0x0A, CHR 0x09] @ '' --Info Element: {} ''
             @ [CHR 0x0A, CHR 0x09] @ '' --Reason: {}.'',
           [LMedia m,
            LInfo (find (\<lambda>element. mi_queryUrl element = queryUrl m) ?cache),
            LErr AttributeError]) \<in> set (LOGGER st')"
    by blast
  have p: "TV_programme st' = [plain_programme untitled_element]"
    using r(2) tv g o1 o2 by simp
  have l: "(ERROR,
       ''Unable to add element: '' @ [CHR 0x0A, CHR 0x09] @ '' --Element: {} ''
         @ [CHR 0x0A, CHR 0x09] @ '' --Info Element: {} ''
         @ [CHR 0x0A, CHR 0x09] @ '' --Reason: {}.'',
       [LMedia block_element,
        LInfo (find (\<lambda>element. mi_queryUrl element = queryUrl block_element) ?cache),
        LErr AttributeError]) \<in> set (LOGGER st')"
    using r(4) g o1 by simp
  have e: "\<exists>st'. adapt_media_objects_to_xmltv_object sample_env assembly_state = Inr st' \<and>
      TV_programme st' = [plain_programme untitled_element] \<and>
      all_episodes st' = ?cache \<and>
      (ERROR,
       ''Unable to add element: '' @ [CHR 0x0A, CHR 0x09] @ '' --Element: {} ''
         @ [CHR 0x0A, CHR 0x09] @ '' --Info Element: {} ''
         @ [CHR 0x0A, CHR 0x09] @ '' --Reason: {}.'',
       [LMedia block_element,
        LInfo (find (\<lambda>element. mi_queryUrl element = queryUrl block_element) ?cache),
        LErr AttributeError]) \<in> set (LOGGER st')"
    by (intro exI [of _ st'] conjI) (fact r(1) p r(3) l)+
  note c = t [THEN conjunct2, THEN conjunct1]
  show ?thesis
    by (intro conjI) (fact g f n o1 o2 e c)+
qed

text \<open>
  The metadata of the show has an episode sub-record without a season. Subtracting 1
  from it raises \<open>TypeError\<close>, which the \<open>except\<close> clause does not catch: assembly ends
  with that exception, and the entry after the show gets no programme either.
\<close>

theorem absent_season_counterexample:
  "map (map_option season \<circ> episode) (all_episodes no_season_state) = [Some None] \<and>
   programme_outcome sample_env (all_episodes no_season_state) block_element = Inl TypeError \<and>
   adapt_media_objects_to_xmltv_object sample_env no_season_state = Inl TypeError"
  by code_simp

section \<open>Failed fetches\<close>

text \<open>
  C5, as the code has it. When opening a URL raises \<open>URLError\<close> or returns a body of
  length zero, \<open>get_json_obj_from_url\<close> logs it and returns \<open>None\<close>. For a schedule
  fetch \<open>get_media\<close> then logs an error and returns with the programme stream, the
  programme list and the cache unchanged. For a metadata fetch \<open>get_media_info\<close>
  returns with the cache unchanged by that call. The failure is not remembered: the
  last theorem of this section is a run in which a later entry with the same key is
  fetched again, and that fetch creates the cache entry.
\<close>

theorem failed_fetch_is_empty_source:
  assumes "urlopen_read env (length (fetched st)) url = URLError \<or>
           urlopen_read env (length (fetched st)) url = Body ''''"
  shows "(\<exists>s. get_json_obj_from_url env url st = Inr (None, s) \<and>
            (last (LOGGER s) =
               (ERROR, ''Error getting data from URL {} due to connection issue.'',
                [LStr url, LURLError]) \<or>
             last (LOGGER s) = (DEBUG, ''Couldn't scrape data from the url: {}'', [LStr url]))) \<and>
     (scheduleUrl ch \<noteq> None \<and> getScheduleUrl env ch (GUIDE_ITEMS_PER_CHANNEL env) = url
        \<longrightarrow> (\<exists>st'. get_media env ch st = Inr st' \<and>
               last (LOGGER st') = (ERROR, ''The URL {} has no media info.'', [LStr url]) \<and>
               MEDIA_GUIDE_OBJECT st' = MEDIA_GUIDE_OBJECT st \<and>
               TV_programme st' = TV_programme st \<and> all_episodes st' = all_episodes st)) \<and>
     (\<not> list_ex (\<lambda>element. mi_queryUrl element = Some url) (all_episodes st)
        \<longrightarrow> (\<exists>st'. get_media_info env url st = Inr st' \<and>
               all_episodes st' = all_episodes st \<and> fetched st' = fetched st @ [url]))"
proof (intro conjI impI)
  from get_json_empty_source [OF assms]
  show "\<exists>s. get_json_obj_from_url env url st = Inr (None, s) \<and>
            (last (LOGGER s) =
               (ERROR, ''Error getting data from URL {} due to connection issue.'',
                [LStr url, LURLError]) \<or>
             last (LOGGER s) = (DEBUG, ''Couldn't scrape data from the url: {}'', [LStr url]))"
    by blast
next
  assume a: "scheduleUrl ch \<noteq> None \<and> getScheduleUrl env ch (GUIDE_ITEMS_PER_CHANNEL env) = url"
  then obtain u where u: "scheduleUrl ch = Some u" by auto
  from get_json_empty_source [OF assms] obtain s where
    s: "get_json_obj_from_url env url st = Inr (None, s)"
      "all_episodes s = all_episodes st" "MEDIA_GUIDE_OBJECT s = MEDIA_GUIDE_OBJECT st"
      "TV_programme s = TV_programme st"
    by blast
  from a s(1) have "get_json_obj_from_url env
      (getScheduleUrl env ch (GUIDE_ITEMS_PER_CHANNEL env)) st = Inr (None, s)"
    by simp
  from get_media_no_data [OF u this] a s(2-)
  show "\<exists>st'. get_media env ch st = Inr st' \<and>
               last (LOGGER st') = (ERROR, ''The URL {} has no media info.'', [LStr url]) \<and>
               MEDIA_GUIDE_OBJECT st' = MEDIA_GUIDE_OBJECT st \<and>
               TV_programme st' = TV_programme st \<and> all_episodes st' = all_episodes st"
    by simp
next
  assume n: "\<not> list_ex (\<lambda>element. mi_queryUrl element = Some url) (all_episodes st)"
  let ?s2 = "log_call DEBUG
       ''mediaInfo data for {} wasn't found in list so we will scrape it.'' [LStr url]
       (log_call DEBUG
          ''Checking if the mediaInfo for {} is present in our current list before grabbing it.''
          [LStr url] st)"
  have "urlopen_read env (length (fetched ?s2)) url = URLError \<or>
        urlopen_read env (length (fetched ?s2)) url = Body ''''"
    using assms by simp
  from get_json_empty_source [OF this] obtain s where
    s: "get_json_obj_from_url env url ?s2 = Inr (None, s)"
      "all_episodes s = all_episodes ?s2" "fetched s = fetched ?s2 @ [url]"
    by blast
  have "get_media_info env url st = Inr s"
    using n s(1) by (simp add: get_media_info_def Let_def)
  with s(2,3) show "\<exists>st'. get_media_info env url st = Inr st' \<and>
               all_episodes st' = all_episodes st \<and> fetched st' = fetched st @ [url]"
    by simp
qed

theorem failed_fetch_is_empty_source_witness:
  "urlopen_read sample_env (length (fetched empty_state)) ''down'' = URLError \<and>
   (\<exists>s. get_json_obj_from_url sample_env ''down'' empty_state = Inr (None, s) \<and>
      (last (LOGGER s) =
         (ERROR, ''Error getting data from URL {} due to connection issue.'',
          [LStr ''down'', LURLError]) \<or>
       last (LOGGER s) = (DEBUG, ''Couldn't scrape data from the url: {}'', [LStr ''down'']))) \<and>
   scheduleUrl (sample_channel\<lparr>scheduleUrl := Some ''down''\<rparr>) \<noteq> None \<and>
   getScheduleUrl sample_env (sample_channel\<lparr>scheduleUrl := Some ''down''\<rparr>)
     (GUIDE_ITEMS_PER_CHANNEL sample_env) = ''down'' \<and>
   (\<exists>st'. get_media sample_env (sample_channel\<lparr>scheduleUrl := Some ''down''\<rparr>) empty_state
            = Inr st' \<and>
      last (LOGGER st') = (ERROR, ''The URL {} has no media info.'', [LStr ''down'']) \<and>
      MEDIA_GUIDE_OBJECT st' = MEDIA_GUIDE_OBJECT empty_state \<and>
      TV_programme st' = TV_programme empty_state \<and>
      all_episodes st' = all_episodes empty_state) \<and>
   \<not> list_ex (\<lambda>element. mi_queryUrl element = Some ''down'') (all_episodes empty_state) \<and>
   (\<exists>st'. get_media_info sample_env ''down'' empty_state = Inr st' \<and>
      all_episodes st' = all_episodes empty_state \<and>
      fetched st' = fetched empty_state @ [''down'']) \<and>
   urlopen_read sample_env (length (fetched empty_state)) ''q?name=Other'' = Body [] \<and>
   \<not> list_ex (\<lambda>element. mi_queryUrl element = Some ''q?name=Other'')
       (all_episodes empty_state) \<and>
   (\<exists>st'. get_media_info sample_env ''q?name=Other'' empty_state = Inr st' \<and>
      all_episodes st' = all_episodes empty_state \<and>
      fetched st' = fetched empty_state @ [''q?name=Other''])"
proof -
  let ?ch = "sample_channel\<lparr>scheduleUrl := Some ''down''\<rparr>"
  have h1: "urlopen_read sample_env (length (fetched empty_state)) ''down'' = URLError"
    by code_simp
  have h2: "scheduleUrl ?ch \<noteq> None"
    "getScheduleUrl sample_env ?ch (GUIDE_ITEMS_PER_CHANNEL sample_env) = ''down''"
    by (simp_all add: sample_env_def)
  have h3: "\<not> list_ex (\<lambda>element. mi_queryUrl element = Some ''down'')
      (all_episodes empty_state)"
    by (simp add: empty_state_def)
  have h4: "urlopen_read sample_env (length (fetched empty_state)) ''q?name=Other'' = Body []"
    by code_simp
  have h5: "\<not> list_ex (\<lambda>element. mi_queryUrl element = Some ''q?name=Other'')
      (all_episodes empty_state)"
    by (simp add: empty_state_def)
  note t1 = failed_fetch_is_empty_source [of sample_env empty_state "''down''" ?ch,
      OF disjI1 [OF h1]]
  note t2 = failed_fetch_is_empty_source [of sample_env empty_state "''q?name=Other''" ?ch,
      OF disjI2 [OF h4]]
  note c1 = t1 [THEN conjunct1]
  note c2 = t1 [THEN conjunct2, THEN conjunct1, THEN mp, OF conjI [OF h2]]
  note c3 = t1 [THEN conjunct2, THEN conjunct2, THEN mp, OF h3]
  note c4 = t2 [THEN conjunct2, THEN conjunct2, THEN mp, OF h5]
  show ?thesis
    by (intro conjI) (fact h1 c1 h2 c2 h3 c3 h4 h5 c4)+
qed

text \<open>
  The metadata source of \<open>flaky_channel\<close> answers its first request with \<open>URLError\<close>.
  Both entries of the schedule have the same key: the URL is opened twice, and the run
  ends with a cache entry for the key.
\<close>

theorem retried_fetch_counterexample:
  "urlopen_read sample_env 1 ''flaky?name=Show%20A'' = URLError \<and>
   map_sum id fetched (get_media sample_env flaky_channel empty_state) =
     Inr [''sched2'', ''flaky?name=Show%20A'', ''flaky?name=Show%20A''] \<and>
   map_sum id (map mi_queryUrl \<circ> all_episodes)
     (get_media sample_env flaky_channel empty_state) =
     Inr [Some ''flaky?name=Show%20A'']"
  by code_simp

section \<open>The mock guide\<close>

text \<open>
  C2, as the code has it. For a channel without a schedule URL \<open>get_media\<close> always
  returns and appends 25 placeholder programmes, not 24: \<open>rrule\<close> includes its \<open>until\<close>
  bound, which is one day after the start. Block \<open>i\<close> runs from the top of the current
  hour plus \<open>i\<close> hours to one hour later, is titled with the channel's display name, and
  the call touches neither the programme stream nor the cache and opens no URL.
\<close>

theorem mock_guide_has_25_blocks:
  assumes "scheduleUrl ch = None"
  shows "\<exists>st' ps. get_media env ch st = Inr st' \<and>
     TV_programme st' = TV_programme st @ ps \<and> length ps = 25 \<and>
     MEDIA_GUIDE_OBJECT st' = MEDIA_GUIDE_OBJECT st \<and>
     all_episodes st' = all_episodes st \<and> fetched st' = fetched st \<and>
     (\<forall>i<25.
        ps ! i =
          mock_programme ch
            (Some (strftime env
               (now env (length (fetched st)) - now env (length (fetched st)) mod 3600
                  + 3600 * int i) NEW_DATE_FORMAT_NO_TZ))
            (Some (strftime env
               (now env (length (fetched st)) - now env (length (fetched st)) mod 3600
                  + 3600 * int (i + 1)) NEW_DATE_FORMAT_NO_TZ)) \<and>
        p_title (ps ! i) = [(Some (displayName ch), Some (ch_lang ch))] \<and>
        p_channel (ps ! i) = Some (ch_id ch))"
proof -
  let ?t = "now env (length (fetched st)) - now env (length (fetched st)) mod 3600"
  let ?f = "\<lambda>b. mock_programme ch (Some (strftime env b NEW_DATE_FORMAT_NO_TZ))
                    (Some (strftime env (b + 3600) NEW_DATE_FORMAT_NO_TZ))"
  let ?ps = "map ?f (map (\<lambda>k. ?t + 3600 * int k) [0 ..< 25])"
  from get_media_mock [OF assms, of env st] obtain st' where
    g: "get_media env ch st = Inr st'" "TV_programme st' = TV_programme st @ ?ps"
      "MEDIA_GUIDE_OBJECT st' = MEDIA_GUIDE_OBJECT st"
      "all_episodes st' = all_episodes st" "fetched st' = fetched st"
    by blast
  have l: "length ?ps = 25" by simp
  have n: "?ps ! i = ?f (?t + 3600 * int i)" if "i < 25" for i
    using that by (simp del: upt_Suc)
  have q: "\<forall>i<25.
        ?ps ! i =
          mock_programme ch
            (Some (strftime env (?t + 3600 * int i) NEW_DATE_FORMAT_NO_TZ))
            (Some (strftime env (?t + 3600 * int (i + 1)) NEW_DATE_FORMAT_NO_TZ)) \<and>
        p_title (?ps ! i) = [(Some (displayName ch), Some (ch_lang ch))] \<and>
        p_channel (?ps ! i) = Some (ch_id ch)"
  proof (intro allI impI)
    fix i :: nat assume "i < 25"
    from n [OF this] show "?ps ! i =
          mock_programme ch
            (Some (strftime env (?t + 3600 * int i) NEW_DATE_FORMAT_NO_TZ))
            (Some (strftime env (?t + 3600 * int (i + 1)) NEW_DATE_FORMAT_NO_TZ)) \<and>
        p_title (?ps ! i) = [(Some (displayName ch), Some (ch_lang ch))] \<and>
        p_channel (?ps ! i) = Some (ch_id ch)"
      by (simp add: mock_programme_def algebra_simps)
  qed
  show ?thesis
    by (intro exI [of _ st'] exI [of _ ?ps] conjI) (fact g l q)+
qed

theorem mock_guide_has_25_blocks_witness:
  "scheduleUrl mock_channel = None \<and>
   (\<exists>st' ps. get_media sample_env mock_channel empty_state = Inr st' \<and>
     TV_programme st' = TV_programme empty_state @ ps \<and> length ps = 25 \<and>
     p_start (ps ! 0) = Some (strftime sample_env 7200 NEW_DATE_FORMAT_NO_TZ) \<and>
     p_stop (ps ! 0) = Some (strftime sample_env 10800 NEW_DATE_FORMAT_NO_TZ) \<and>
     p_start (ps ! 24) = Some (strftime sample_env 93600 NEW_DATE_FORMAT_NO_TZ) \<and>
     p_stop (ps ! 24) = Some (strftime sample_env 97200 NEW_DATE_FORMAT_NO_TZ) \<and>
     p_title (ps ! 24) = [(Some ''Channel 2'', Some ''en'')])"
proof -
  have h: "scheduleUrl mock_channel = None"
    by (simp add: mock_channel_def)
  have t: "now sample_env (length (fetched empty_state))
             - now sample_env (length (fetched empty_state)) mod 3600 = 7200"
    by (simp add: sample_env_def)
  from mock_guide_has_25_blocks [OF h, of sample_env empty_state] obtain st' ps where
    g: "get_media sample_env mock_channel empty_state = Inr st'"
      "TV_programme st' = TV_programme empty_state @ ps" "length ps = 25"
    and a: "\<forall>i<25. ps ! i = mock_programme mock_channel
            (Some (strftime sample_env
               (now sample_env (length (fetched empty_state))
                  - now sample_env (length (fetched empty_state)) mod 3600
                  + 3600 * int i) NEW_DATE_FORMAT_NO_TZ))
            (Some (strftime sample_env
               (now sample_env (length (fetched empty_state))
                  - now sample_env (length (fetched empty_state)) mod 3600
                  + 3600 * int (i + 1)) NEW_DATE_FORMAT_NO_TZ)) \<and>
        p_title (ps ! i) = [(Some (displayName mock_channel), Some (ch_lang mock_channel))] \<and>
        p_channel (ps ! i) = Some (ch_id mock_channel)"
    by blast
  from a have "ps ! 0 = mock_programme mock_channel
            (Some (strftime sample_env 7200 NEW_DATE_FORMAT_NO_TZ))
            (Some (strftime sample_env 10800 NEW_DATE_FORMAT_NO_TZ))"
    unfolding t by (drule_tac x = 0 in spec) simp
  moreover from a have "ps ! 24 = mock_programme mock_channel
            (Some (strftime sample_env 93600 NEW_DATE_FORMAT_NO_TZ))
            (Some (strftime sample_env 97200 NEW_DATE_FORMAT_NO_TZ))"
    unfolding t by (drule_tac x = 24 in spec) simp
  ultimately have "p_start (ps ! 0) = Some (strftime sample_env 7200 NEW_DATE_FORMAT_NO_TZ)"
    "p_stop (ps ! 0) = Some (strftime sample_env 10800 NEW_DATE_FORMAT_NO_TZ)"
    "p_start (ps ! 24) = Some (strftime sample_env 93600 NEW_DATE_FORMAT_NO_TZ)"
    "p_stop (ps ! 24) = Some (strftime sample_env 97200 NEW_DATE_FORMAT_NO_TZ)"
    "p_title (ps ! 24) = [(Some ''Channel 2'', Some ''en'')]"
    by (simp_all add: mock_programme_def mock_channel_def)
  with h g show ?thesis
    by blast
qed

section \<open>Absent dates\<close>

text \<open>
  C10, as the code has it. \<open>get_proper_date_time\<close> returns \<open>None\<close>, and raises nothing,
  for \<open>None\<close> and for the empty string, whatever the format. So a metadata record whose
  release date is missing or empty gives a programme without a date. (Nothing is said
  here of a programme's own start and stop: \<open>get_media\<close> does not pass them as they are,
  see the last theorem of this section.)
\<close>

theorem absent_date_reformats_to_absent:
  "get_proper_date_time env DateNone new_format st =
     Inr (None, log_call DEBUG ''Converting the date_time_string {} to format {}.''
                  [LOpt None, LStr new_format] st) \<and>
   get_proper_date_time env (DateStr []) new_format st =
     Inr (None, log_call DEBUG ''Converting the date_time_string {} to format {}.''
                  [LStr [], LStr new_format] st) \<and>
   ((releaseDate mi = None \<or> releaseDate mi = Some []) \<and>
    derive_programme env m (Some mi) s = Inr (p, s') \<longrightarrow> p_date p = None)"
proof (intro conjI impI)
  show "get_proper_date_time env DateNone new_format st =
     Inr (None, log_call DEBUG ''Converting the date_time_string {} to format {}.''
                  [LOpt None, LStr new_format] st)"
    by (simp add: get_proper_date_time_def proper_date_time_def)
  show "get_proper_date_time env (DateStr []) new_format st =
     Inr (None, log_call DEBUG ''Converting the date_time_string {} to format {}.''
                  [LStr [], LStr new_format] st)"
    by (simp add: get_proper_date_time_def proper_date_time_def)
next
  assume a: "(releaseDate mi = None \<or> releaseDate mi = Some []) \<and>
    derive_programme env m (Some mi) s = Inr (p, s')"
  then have d: "derive_programme env m (Some mi) s = Inr (p, s')"
    by simp
  have "proper_date_time env (date_of_opt (releaseDate mi)) NEW_DATE_FORMAT_MINIMAL
      = Inr (p_date p)"
    using d by (rule derive_programme_date)
  moreover have "proper_date_time env (date_of_opt (releaseDate mi)) NEW_DATE_FORMAT_MINIMAL
      = Inr None"
    using a by (auto simp: date_of_opt_def proper_date_time_def)
  ultimately show "p_date p = None" by simp
qed

theorem absent_date_reformats_to_absent_witness:
  "\<exists>p s'.
     get_proper_date_time sample_env DateNone NEW_DATE_FORMAT empty_state =
       Inr (None, log_call DEBUG ''Converting the date_time_string {} to format {}.''
                    [LOpt None, LStr NEW_DATE_FORMAT] empty_state) \<and>
     get_proper_date_time sample_env (DateStr []) NEW_DATE_FORMAT empty_state =
       Inr (None, log_call DEBUG ''Converting the date_time_string {} to format {}.''
                    [LStr [], LStr NEW_DATE_FORMAT] empty_state) \<and>
     releaseDate (sample_info (Some [''Action''])) = Some [] \<and>
     derive_programme sample_env block_element (Some (sample_info (Some [''Action''])))
       empty_state = Inr (p, s') \<and>
     p_date p = None"
proof -
  let ?mi = "sample_info (Some [''Action''])"
  have r: "releaseDate ?mi = Some []"
    by (simp add: sample_info_def)
  have "case derive_programme sample_env block_element (Some ?mi) empty_state of
          Inr x \<Rightarrow> True | Inl y \<Rightarrow> False"
    by code_simp
  then obtain p s' where
    d: "derive_programme sample_env block_element (Some ?mi) empty_state = Inr (p, s')"
    by (auto split: sum.splits)
  note t = absent_date_reformats_to_absent [of sample_env NEW_DATE_FORMAT empty_state
      ?mi block_element empty_state p s']
  note c1 = t [THEN conjunct1]
  note c2 = t [THEN conjunct2, THEN conjunct1]
  from t r d have c3: "p_date p = None" by blast
  show ?thesis
    by (intro exI [of _ p] exI [of _ s'] conjI) (fact c1 c2 r d c3)+
qed

text \<open>
  A schedule entry without a start date: \<open>get_media\<close> passes \<open>str(startDate)\<close> followed
  by the offset, the text \<open>None-0500\<close>, which is neither \<open>None\<close> nor empty. The
  reformatter hands it to the parser, and the element does not end up with an absent
  start. By \<open>proper_date_time_str_None\<close> this holds whatever the parser answers.
\<close>

theorem missing_start_counterexample:
  "startDate (from_raw (sample_entry None (Some ''Show A'') None)) = None \<and>
   py_str (startDate (from_raw (sample_entry None (Some ''Show A'') None)))
     @ offset sample_channel = ''None-0500'' \<and>
   proper_date_time sample_env (DateStr ''None-0500'') NEW_DATE_FORMAT \<noteq> Inr None \<and>
   map_sum id (map startDate \<circ> MEDIA_GUIDE_OBJECT)
     (media_loop_body sample_env sample_channel
        [from_raw (sample_entry None (Some ''Show A'') None)] 0
        (from_raw (sample_entry None (Some ''Show A'') None)) empty_state)
     \<noteq> Inr [None]"
  by code_simp

section \<open>Order of the programme list\<close>

text \<open>
  C4, as the code has it. The programme list of a run that returns is built in two
  groups. First come the placeholder programmes, appended by \<open>get_media\<close> while the
  catalog is read: channel by channel in catalog order, and hour by hour within a
  channel. After them come the programmes assembled from the programme stream, which
  holds the elements of the channels with a schedule URL: channel by channel in catalog
  order, element \<open>j\<close> of a channel made from entry \<open>j\<close> of its schedule; assembly keeps
  their order and leaves out the ones it drops. So the order of the catalog is kept
  inside each group, and not across a catalog that has both kinds of channel.
\<close>

theorem programme_order:
  assumes "main env CHANNELS st = Inr st'"
  shows "\<exists>segs kept asm.
     length segs = length CHANNELS \<and>
     (\<forall>i<length CHANNELS.
        case scheduleUrl (CHANNELS ! i) of
          None \<Rightarrow>
            fst (segs ! i) = [] \<and>
            (\<exists>t n. snd (segs ! i) =
               map (\<lambda>k. mock_programme (CHANNELS ! i)
                          (Some (strftime env (t + 3600 * int k) NEW_DATE_FORMAT_NO_TZ))
                          (Some (strftime env (t + 3600 * int (k + 1))
                                   NEW_DATE_FORMAT_NO_TZ)))
                   [0 ..< n])
        | Some u \<Rightarrow>
            snd (segs ! i) = [] \<and>
            (fst (segs ! i) = [] \<or>
             (\<exists>js raws. parse_media_root env js = Inr raws \<and>
                length (fst (segs ! i)) = length raws \<and>
                (\<forall>j<length raws.
                   blockName (fst (segs ! i) ! j) = raw_blockName (raws ! j) \<and>
                   episodeNumber (fst (segs ! i) ! j) = raw_episodeNumber (raws ! j) \<and>
                   info (fst (segs ! i) ! j) = raw_info (raws ! j) \<and>
                   name (fst (segs ! i) ! j) =
                     (case raw_name (raws ! j) of
                        None \<Rightarrow> raw_blockName (raws ! j) | Some n \<Rightarrow> Some n) \<and>
                   (name (fst (segs ! i) ! j) \<noteq> None \<longrightarrow>
                      channel (fst (segs ! i) ! j) = Some (ch_id (CHANNELS ! i))))))) \<and>
     subseq kept (MEDIA_GUIDE_OBJECT st @ concat (map fst segs)) \<and>
     map (\<lambda>p. (p_channel p, p_start p, p_stop p)) asm =
       map (\<lambda>m. (channel m, startDate m, stopDate m)) kept \<and>
     TV_programme st' = TV_programme st @ concat (map snd segs) @ asm"
proof -
  from assms obtain st1 where c: "channels_loop env CHANNELS st = Inr st1"
    and a: "adapt_media_objects_to_xmltv_object env st1 = Inr st'"
    by (auto simp: main_def split: sum.splits)
  from channels_loop_segments [OF c] obtain segs where
    s: "length segs = length CHANNELS"
      "\<forall>i<length CHANNELS.
         channel_segment env (CHANNELS ! i) (fst (segs ! i)) (snd (segs ! i))"
      "MEDIA_GUIDE_OBJECT st1 = MEDIA_GUIDE_OBJECT st @ concat (map fst segs)"
      "TV_programme st1 = TV_programme st @ concat (map snd segs)"
    by blast
  let ?l = "log_call DEBUG ''Going to adapt media objects into xmltv objects.'' [] st1"
  have "adapt_loop env (MEDIA_GUIDE_OBJECT st1) ?l = Inr st'"
    using a by (simp add: adapt_media_objects_to_xmltv_object_def)
  from adapt_loop_Inr [OF this] obtain kept asm where
    k: "subseq kept (MEDIA_GUIDE_OBJECT st1)" "TV_programme st' = TV_programme ?l @ asm"
      "map (\<lambda>p. (p_channel p, p_start p, p_stop p)) asm =
         map (\<lambda>m. (channel m, startDate m, stopDate m)) kept"
    by blast
  have k1: "subseq kept (MEDIA_GUIDE_OBJECT st @ concat (map fst segs))"
    using k(1) s(3) by simp
  have k2: "TV_programme st' = TV_programme st @ concat (map snd segs) @ asm"
    using k(2) s(4) by simp
  note s2 = s(2) [unfolded channel_segment_def]
  show ?thesis
    by (intro exI [of _ segs] exI [of _ kept] exI [of _ asm] conjI) (fact s(1) s2 k1 k(3) k2)+
qed

theorem programme_order_witness:
  "\<exists>st'. main sample_env [sample_channel, mock_channel] empty_state = Inr st' \<and>
     (\<exists>segs kept asm.
        length segs = length [sample_channel, mock_channel] \<and>
        subseq kept (MEDIA_GUIDE_OBJECT empty_state @ concat (map fst segs)) \<and>
        map (\<lambda>p. (p_channel p, p_start p, p_stop p)) asm =
          map (\<lambda>m. (channel m, startDate m, stopDate m)) kept \<and>
        TV_programme st' = TV_programme empty_state @ concat (map snd segs) @ asm) \<and>
     map p_channel (TV_programme st') = replicate 25 (Some ''ch2'') @ [Some ''ch1'', None]"
proof -
  from mixed_run obtain st' where
    m: "main sample_env [sample_channel, mock_channel] empty_state = Inr st'"
    and v: "map p_channel (TV_programme st') =
      replicate 25 (Some ''ch2'') @ [Some ''ch1'', None]"
    by blast
  from programme_order [OF m] have "\<exists>segs kept asm.
        length segs = length [sample_channel, mock_channel] \<and>
        subseq kept (MEDIA_GUIDE_OBJECT empty_state @ concat (map fst segs)) \<and>
        map (\<lambda>p. (p_channel p, p_start p, p_stop p)) asm =
          map (\<lambda>m. (channel m, startDate m, stopDate m)) kept \<and>
        TV_programme st' = TV_programme empty_state @ concat (map snd segs) @ asm"
    by blast
  with m v show ?thesis by blast
qed

text \<open>
  The catalog \<open>[ch1, ch2]\<close>, where only \<open>ch1\<close> has a schedule: every programme of
  \<open>ch2\<close> comes before the programmes of \<open>ch1\<close>. (Of the three entries of the schedule,
  the second is dropped by assembly and the third has no title, hence no channel.)
\<close>

theorem catalog_order_counterexample:
  "map ch_id [sample_channel, mock_channel] = [''ch1'', ''ch2''] \<and>
   map_sum id (map p_channel \<circ> TV_programme)
     (main sample_env [sample_channel, mock_channel] empty_state) =
     Inr (replicate 25 (Some ''ch2'') @ [Some ''ch1'', None])"
proof -
  from mixed_run obtain st' where
    "main sample_env [sample_channel, mock_channel] empty_state = Inr st'"
    "map p_channel (TV_programme st') = replicate 25 (Some ''ch2'') @ [Some ''ch1'', None]"
    by blast
  then show ?thesis
    by (simp add: sample_channel_def mock_channel_def)
qed

end
